theory Spec2Isabelle
  imports Main
begin

section \<open>Data model\<close>

text \<open>
  The backend is an Express application over MongoDB collections reached through Mongoose
  models. A collection is a list of documents in insertion order; an ObjectId is a natural
  number; a Date is its number of milliseconds since the epoch. Strings stay strings where
  the code compares them as strings (roles, statuses, priorities, recurrence types).
  The documents carry the paths that the schemas of \<^verbatim>\<open>models/task.model.js\<close> and
  \<^verbatim>\<open>models/notification.model.js\<close> declare; the \<^verbatim>\<open>createdAt\<close>/\<^verbatim>\<open>updatedAt\<close>
  timestamps are left to the sort key of the list query. An id that a request names (a
  path parameter, a reference in a body or in the query string) is a well-formed ObjectId.
\<close>

type_synonym oid = nat
type_synonym date = int

record user =
  user_id :: oid
  name :: string
  email :: string
  role :: string

record task =
  task_id :: oid
  title :: string
  description :: "string option"
  status :: string
  priority :: string
  dueDate :: "date option"
  createdBy :: oid
  assignedTo :: "oid option"
  tags :: "string list"
  isRecurring :: bool
  recurringType :: string
  recurringEndDate :: "date option"

record notification =
  ntype :: string
  sender :: oid
  recipient :: oid
  message :: string
  relatedTask :: "oid option"
  isRead :: bool

text \<open>
  The store keeps, beside its collections, the writes that it has carried out, in the
  order in which the handlers awaited them: a document saved, a task deleted by id, an
  \<^verbatim>\<open>updateMany\<close> over a list of ids. A write that fails leaves no entry.
\<close>

datatype storeWrite =
    SavedTask task
  | DeletedTask oid
  | UpdatedMany "oid list"
  | SavedNotification notification

record db =
  users :: "user list"
  tasks :: "task list"
  notifications :: "notification list"
  nextId :: oid
  writes :: "storeWrite list"

text \<open>A user as \<^verbatim>\<open>populate(path, 'name email')\<close> shows it: the id, the name, the email.\<close>

record populatedUser =
  pu_id :: oid
  pu_name :: string
  pu_email :: string

text \<open>
  A response is the HTTP status with the JSON body that the handler sends. The text of an
  internal error (\<^verbatim>\<open>error.message\<close> of a caught exception) is not modelled.
\<close>

datatype payload =
    ErrorMessage string
  | ValidationErrors
  | InternalError
  | TaskCreated task
  | TaskUpdated task
  | TaskDeleted
  | TaskFound task "populatedUser option" "populatedUser option"
  | TaskPage "(task \<times> populatedUser option \<times> populatedUser option) list" nat int
      "int option"
  | TasksUpdated nat

type_synonym response = "nat \<times> payload"

text \<open>
  A value read from a parsed JSON body: the key is absent (\<^verbatim>\<open>undefined\<close>), holds
  \<^verbatim>\<open>null\<close>, or holds a value of the type that the schema casts it to.
\<close>

datatype 'a jsfield = Undefined | Null | Val 'a

text \<open>
  A reference that a body gives as a string: the ObjectId that the schema casts it to, and
  whether the string is the one that \<^verbatim>\<open>toString()\<close> gives for that ObjectId (24
  lower-case hexadecimal digits). The cast takes upper-case digits as well, so one ObjectId
  has spellings that \<^verbatim>\<open>toString()\<close> never gives. \<open>sameString s i\<close> is the test
  \<^verbatim>\<open>s.toString() === i.toString()\<close> of such a string against an ObjectId.
\<close>

record idString =
  castId :: oid
  canonical :: bool

definition sameString :: "idString \<Rightarrow> oid \<Rightarrow> bool" where
  "sameString s i = (canonical s \<and> castId s = i)"

section \<open>Store operations\<close>

definition findUserById :: "db \<Rightarrow> oid \<Rightarrow> user option" where
  "findUserById d i = find (\<lambda>u. user_id u = i) (users d)"

definition findById :: "db \<Rightarrow> oid \<Rightarrow> task option" where
  "findById d i = find (\<lambda>t. task_id t = i) (tasks d)"

text \<open>
  \<^verbatim>\<open>populate('createdBy', ...)\<close> replaces a reference by the referenced document, and by
  \<^verbatim>\<open>null\<close> when no such document exists.
\<close>

definition selectNameEmail :: "user \<Rightarrow> populatedUser" where
  "selectNameEmail u = \<lparr> pu_id = user_id u, pu_name = name u, pu_email = email u \<rparr>"

definition populate ::
  "db \<Rightarrow> task \<Rightarrow> task \<times> populatedUser option \<times> populatedUser option" where
  "populate d t =
     (t, map_option selectNameEmail (findUserById d (createdBy t)),
      (case assignedTo t of
         None \<Rightarrow> None
       | Some a \<Rightarrow> map_option selectNameEmail (findUserById d a)))"

section \<open>Middleware (middleware/auth.middleware.js)\<close>

text \<open>
  \<^verbatim>\<open>requireSignIn\<close>: the token, once verified, yields a user id (\<open>None\<close> stands for a
  missing, invalid or expired token); the user is then looked up.
\<close>

definition requireSignIn :: "db \<Rightarrow> oid option \<Rightarrow> response + user" where
  "requireSignIn d tok =
     (case tok of
        None \<Rightarrow> Inl (401, ErrorMessage ''Authentication required. Please sign in.'')
      | Some i \<Rightarrow>
          (case findUserById d i of
             None \<Rightarrow> Inl (401, ErrorMessage ''User not found. Please sign in again.'')
           | Some u \<Rightarrow> Inr u))"

definition hasRole :: "string list \<Rightarrow> user \<Rightarrow> response + unit" where
  "hasRole roles u =
     (if role u \<notin> set roles
      then Inl (403, ErrorMessage
                  ''Access denied. You do not have permission to perform this action.'')
      else Inr ())"

definition isTaskCreatorOrAdmin :: "db \<Rightarrow> user \<Rightarrow> oid \<Rightarrow> response + task" where
  "isTaskCreatorOrAdmin d u taskId =
     (case findById d taskId of
        None \<Rightarrow> Inl (404, ErrorMessage ''Task not found'')
      | Some t \<Rightarrow>
          if role u = ''admin'' \<or>
             createdBy t = user_id u \<or>
             (role u = ''manager'' \<and> assignedTo t = Some (user_id u))
          then Inr t
          else Inl (403, ErrorMessage
                      ''Access denied. You are not authorized to modify this task.''))"

section \<open>Reading one task (routes/task.routes.js, GET /:id)\<close>



section \<open>Dates\<close>

text \<open>
  The \<^verbatim>\<open>Date\<close> methods that the routes call, for a server whose local time zone is UTC:
  a date is split into its day number and the time within the day, the day number into
  year, month and day of the proleptic Gregorian calendar, and \<^verbatim>\<open>setDate\<close> and
  \<^verbatim>\<open>setMonth\<close> rebuild the day number the way ECMAScript's MakeDay does, so that a
  day or month out of range carries into the next month or year.
\<close>

definition msPerDay :: int where
  "msPerDay = 86400000"

definition daysFromCivil :: "int \<Rightarrow> int \<Rightarrow> int \<Rightarrow> int" where
  "daysFromCivil y m dd =
     (let y' = (if m \<le> 2 then y - 1 else y);
          era = y' div 400;
          yoe = y' - era * 400;
          doy = (153 * (if m > 2 then m - 3 else m + 9) + 2) div 5 + dd - 1;
          doe = yoe * 365 + yoe div 4 - yoe div 100 + doy
      in era * 146097 + doe - 719468)"

definition civilFromDays :: "int \<Rightarrow> int \<times> int \<times> int" where
  "civilFromDays z =
     (let z' = z + 719468;
          era = z' div 146097;
          doe = z' - era * 146097;
          yoe = (doe - doe div 1460 + doe div 36524 - doe div 146096) div 365;
          doy = doe - (365 * yoe + yoe div 4 - yoe div 100);
          mp = (5 * doy + 2) div 153;
          dd = doy - (153 * mp + 2) div 5 + 1;
          m = (if mp < 10 then mp + 3 else mp - 9);
          y = yoe + era * 400
      in (if m \<le> 2 then y + 1 else y, m, dd))"

definition makeDay :: "int \<Rightarrow> int \<Rightarrow> int \<Rightarrow> int" where
  "makeDay y m0 dt = daysFromCivil (y + m0 div 12) (m0 mod 12 + 1) 1 + dt - 1"

definition getDate :: "date \<Rightarrow> int" where
  "getDate t = (case civilFromDays (t div msPerDay) of (y, m, dd) \<Rightarrow> dd)"

definition getMonth :: "date \<Rightarrow> int" where
  "getMonth t = (case civilFromDays (t div msPerDay) of (y, m, dd) \<Rightarrow> m - 1)"

definition setDate :: "date \<Rightarrow> int \<Rightarrow> date" where
  "setDate t dt =
     (case civilFromDays (t div msPerDay) of
        (y, m, dd) \<Rightarrow> makeDay y (m - 1) dt * msPerDay + t mod msPerDay)"

definition setMonth :: "date \<Rightarrow> int \<Rightarrow> date" where
  "setMonth t m0 =
     (case civilFromDays (t div msPerDay) of
        (y, m, dd) \<Rightarrow> makeDay y m0 dd * msPerDay + t mod msPerDay)"

text \<open>\<^verbatim>\<open>setHours(h, m, s, ms)\<close> keeps the day and replaces the time within it.\<close>

definition setHours :: "date \<Rightarrow> int \<Rightarrow> int \<Rightarrow> int \<Rightarrow> int \<Rightarrow> date" where
  "setHours t h mi s ms =
     (t div msPerDay) * msPerDay + ((h * 60 + mi) * 60 + s) * 1000 + ms"

section \<open>Schema casting and validation (models/task.model.js)\<close>

definition isSpace :: "char \<Rightarrow> bool" where
  "isSpace c = (c \<in> set [CHR '' '', CHR 0x09, CHR 0x0A, CHR 0x0B, CHR 0x0C, CHR 0x0D])"

definition trim :: "string \<Rightarrow> string" where
  "trim s = rev (dropWhile isSpace (rev (dropWhile isSpace s)))"

definition statusEnum :: "string list" where
  "statusEnum = [''todo'', ''in-progress'', ''review'', ''completed'']"

definition priorityEnum :: "string list" where
  "priorityEnum = [''low'', ''medium'', ''high'', ''urgent'']"

definition recurringTypeEnum :: "string list" where
  "recurringTypeEnum = [''daily'', ''weekly'', ''monthly'', ''none'']"

text \<open>
  The validators that \<^verbatim>\<open>save()\<close> runs on a task document; a failure makes
  \<^verbatim>\<open>save()\<close> throw. \<^verbatim>\<open>createdBy\<close> is required as well, which the document type
  expresses; a handler that assigns \<^verbatim>\<open>null\<close> to it tests for that itself.
\<close>

definition taskValid :: "task \<Rightarrow> bool" where
  "taskValid t =
     (title t \<noteq> [] \<and> length (title t) \<le> 100 \<and>
      (case description t of None \<Rightarrow> True | Some s \<Rightarrow> length s \<le> 1000) \<and>
      status t \<in> set statusEnum \<and>
      priority t \<in> set priorityEnum \<and>
      recurringType t \<in> set recurringTypeEnum)"

fun fromField :: "'a \<Rightarrow> 'a jsfield \<Rightarrow> 'a" where
  "fromField dflt (Val v) = v"
| "fromField dflt Null = dflt"
| "fromField dflt Undefined = dflt"

fun toOption :: "'a jsfield \<Rightarrow> 'a option" where
  "toOption (Val v) = Some v"
| "toOption Null = None"
| "toOption Undefined = None"

section \<open>Helpers of routes/task.routes.js\<close>

definition notificationTypeEnum :: "string list" where
  "notificationTypeEnum =
     [''task-assigned'', ''task-updated'', ''task-completed'', ''task-deleted'',
      ''task-reminder'']"

definition notificationValid :: "notification \<Rightarrow> bool" where
  "notificationValid n = (ntype n \<in> set notificationTypeEnum \<and> message n \<noteq> [])"

text \<open>
  \<^verbatim>\<open>createNotification\<close>: whether the store accepts the write is a parameter \<open>sv\<close> of
  the model (\<open>sv n\<close> holds when saving \<open>n\<close> succeeds). A failed save is caught and gives
  \<^verbatim>\<open>null\<close>.
\<close>

definition createNotification ::
  "(notification \<Rightarrow> bool) \<Rightarrow> db \<Rightarrow> string \<Rightarrow> oid \<Rightarrow> oid \<Rightarrow> string \<Rightarrow> oid option
     \<Rightarrow> db \<times> notification option" where
  "createNotification sv d ty sndr rcpt msg taskId =
     (let n = \<lparr> ntype = ty, sender = sndr, recipient = rcpt, message = msg,
                relatedTask = taskId, isRead = False \<rparr>
      in if notificationValid n \<and> sv n
         then (d\<lparr> notifications := notifications d @ [n],
                   writes := writes d @ [SavedNotification n] \<rparr>, Some n)
         else (d, None))"

text \<open>
  \<^verbatim>\<open>createRecurringTask\<close>: \<^verbatim>\<open>new Date(undefined)\<close> is an invalid date, which stays
  invalid under \<^verbatim>\<open>setDate\<close>/\<^verbatim>\<open>setMonth\<close>, compares false with everything and fails
  to cast when the new task is saved; the \<^verbatim>\<open>catch\<close> then returns \<^verbatim>\<open>null\<close>.
  The invalid date is \<open>None\<close>; the outer \<open>None\<close> of \<open>nextDueDate\<close> is the
  \<^verbatim>\<open>default\<close> branch of the \<^verbatim>\<open>switch\<close>.
\<close>

definition nextDueDate :: "string \<Rightarrow> date option \<Rightarrow> date option option" where
  "nextDueDate rt due =
     (if rt = ''daily'' then Some (map_option (\<lambda>x. setDate x (getDate x + 1)) due)
      else if rt = ''weekly'' then Some (map_option (\<lambda>x. setDate x (getDate x + 7)) due)
      else if rt = ''monthly'' then Some (map_option (\<lambda>x. setMonth x (getMonth x + 1)) due)
      else None)"

definition createRecurringTask :: "db \<Rightarrow> task \<Rightarrow> string \<Rightarrow> db \<times> task option" where
  "createRecurringTask d t rt =
     (case nextDueDate rt (dueDate t) of
        None \<Rightarrow> (d, None)
      | Some newDueDate \<Rightarrow>
          if (case (recurringEndDate t, newDueDate) of
                (Some e, Some n) \<Rightarrow> n > e
              | _ \<Rightarrow> False)
          then (d, None)
          else
            (case newDueDate of
               None \<Rightarrow> (d, None)
             | Some n \<Rightarrow>
                 let newTask =
                   \<lparr> task_id = nextId d, title = trim (title t),
                     description = map_option trim (description t),
                     status = ''todo'', priority = priority t, dueDate = Some n,
                     createdBy = createdBy t, assignedTo = assignedTo t,
                     tags = map trim (tags t), isRecurring = isRecurring t,
                     recurringType = recurringType t,
                     recurringEndDate = recurringEndDate t \<rparr>
                 in if taskValid newTask
                    then (d\<lparr> tasks := tasks d @ [newTask], nextId := Suc (nextId d),
                              writes := writes d @ [SavedTask newTask] \<rparr>,
                          Some newTask)
                    else (d, None)))"

section \<open>Request bodies\<close>

text \<open>
  The body of \<^verbatim>\<open>POST /\<close> and \<^verbatim>\<open>PUT /:id\<close>, with one field for each schema path
  that a client can name. Mongoose's strict mode drops every other key.
\<close>

record taskBody =
  b_title :: "string jsfield"
  b_description :: "string jsfield"
  b_status :: "string jsfield"
  b_priority :: "string jsfield"
  b_dueDate :: "date jsfield"
  b_createdBy :: "oid jsfield"
  b_assignedTo :: "idString jsfield"
  b_tags :: "string list jsfield"
  b_isRecurring :: "bool jsfield"
  b_recurringType :: "string jsfield"
  b_recurringEndDate :: "date jsfield"

text \<open>
  The express-validator chains. \<^verbatim>\<open>optional()\<close> skips a key only when it is
  \<^verbatim>\<open>undefined\<close>, so \<^verbatim>\<open>null\<close> reaches the validator that follows and fails it;
  a chain that is \<^verbatim>\<open>optional()\<close> alone accepts everything.
\<close>

fun optionalIsIn :: "string list \<Rightarrow> string jsfield \<Rightarrow> bool" where
  "optionalIsIn xs Undefined = True"
| "optionalIsIn xs Null = False"
| "optionalIsIn xs (Val v) = (v \<in> set xs)"

fun optionalTyped :: "'a jsfield \<Rightarrow> bool" where
  "optionalTyped Undefined = True"
| "optionalTyped Null = False"
| "optionalTyped (Val v) = True"

fun trimNotEmpty :: "string jsfield \<Rightarrow> bool" where
  "trimNotEmpty (Val v) = (trim v \<noteq> [])"
| "trimNotEmpty Null = False"
| "trimNotEmpty Undefined = False"

definition validateCommon :: "taskBody \<Rightarrow> bool" where
  "validateCommon b =
     (optionalIsIn statusEnum (b_status b) \<and>
      optionalIsIn priorityEnum (b_priority b) \<and>
      optionalTyped (b_dueDate b) \<and>
      optionalTyped (b_tags b) \<and>
      optionalTyped (b_isRecurring b) \<and>
      optionalIsIn recurringTypeEnum (b_recurringType b) \<and>
      optionalTyped (b_recurringEndDate b))"

definition validateCreate :: "taskBody \<Rightarrow> bool" where
  "validateCreate b = (trimNotEmpty (b_title b) \<and> validateCommon b)"

definition validateUpdate :: "taskBody \<Rightarrow> bool" where
  "validateUpdate b =
     ((b_title b = Undefined \<or> trimNotEmpty (b_title b)) \<and> validateCommon b)"

section \<open>Creating a task (POST /)\<close>

text \<open>
  \<^verbatim>\<open>new Task({...req.body, createdBy: req.user._id})\<close>: the schema's defaults fill the
  absent paths, its setters trim the strings.
\<close>

definition newTask :: "oid \<Rightarrow> oid \<Rightarrow> taskBody \<Rightarrow> task" where
  "newTask i creator b =
     \<lparr> task_id = i,
       title = trim (fromField [] (b_title b)),
       description = map_option trim (toOption (b_description b)),
       status = fromField ''todo'' (b_status b),
       priority = fromField ''medium'' (b_priority b),
       dueDate = toOption (b_dueDate b),
       createdBy = creator,
       assignedTo = map_option castId (toOption (b_assignedTo b)),
       tags = map trim (fromField [] (b_tags b)),
       isRecurring = fromField False (b_isRecurring b),
       recurringType = fromField ''none'' (b_recurringType b),
       recurringEndDate = toOption (b_recurringEndDate b) \<rparr>"

definition createTaskHandler ::
  "(notification \<Rightarrow> bool) \<Rightarrow> db \<Rightarrow> user \<Rightarrow> taskBody \<Rightarrow> db \<times> response" where
  "createTaskHandler sv d u b =
     (if \<not> validateCreate b then (d, (400, ValidationErrors))
      else
        let t = newTask (nextId d) (user_id u) b in
        if \<not> taskValid t then (d, (500, InternalError))
        else
          let d1 = d\<lparr> tasks := tasks d @ [t], nextId := Suc (nextId d),
                      writes := writes d @ [SavedTask t] \<rparr>;
              d2 = (case assignedTo t of
                      Some a \<Rightarrow>
                        if a \<noteq> user_id u
                        then fst (createNotification sv d1 ''task-assigned'' (user_id u) a
                                    (name u @ '' assigned you a new task: '' @ title t)
                                    (Some (task_id t)))
                        else d1
                    | None \<Rightarrow> d1)
          in (d2, (201, TaskCreated t)))"

definition createTask ::
  "(notification \<Rightarrow> bool) \<Rightarrow> db \<Rightarrow> oid option \<Rightarrow> taskBody \<Rightarrow> db \<times> response" where
  "createTask sv d tok b =
     (case requireSignIn d tok of
        Inl r \<Rightarrow> (d, r)
      | Inr u \<Rightarrow> createTaskHandler sv d u b)"

section \<open>Listing tasks (GET /)\<close>

text \<open>
  The query string, parsed: \<^verbatim>\<open>assignedTo\<close> and \<^verbatim>\<open>createdBy\<close> hold the sentinel
  \<^verbatim>\<open>'me'\<close> or an id; \<^verbatim>\<open>page\<close> and \<^verbatim>\<open>limit\<close> are the integers that
  \<^verbatim>\<open>parseInt\<close> reads; an absent key is \<open>None\<close>.
\<close>

datatype idFilter = Me | OtherId oid

record listFilters =
  f_status :: "string option"
  f_priority :: "string option"
  f_dueDate :: "date option"
  f_search :: "string option"
  f_assignedTo :: "idFilter option"
  f_createdBy :: "idFilter option"
  f_overdue :: "string option"
  f_page :: "int option"
  f_limit :: "int option"
  f_sortBy :: "string option"
  f_sortOrder :: "string option"

text \<open>A string of the query is truthy when it is present and not empty.\<close>

fun truthy :: "string option \<Rightarrow> bool" where
  "truthy None = False"
| "truthy (Some s) = (s \<noteq> [])"

text \<open>
  The MongoDB filter object that the handler builds: one optional condition for each key
  it may set. A filter matches a document when every condition that is set holds.
\<close>

datatype strCond = StrEq string | StrNe string

datatype dateCond = DateBetween date date | DateLt date

datatype clause =
    TitleRegex string
  | DescriptionRegex string
  | CreatedByIs oid
  | AssignedToIs oid

record query =
  q_status :: "strCond option"
  q_priority :: "string option"
  q_or :: "clause list option"
  q_assignedTo :: "oid option"
  q_createdBy :: "oid option"
  q_dueDate :: "dateCond option"

definition emptyQuery :: query where
  "emptyQuery = \<lparr> q_status = None, q_priority = None, q_or = None, q_assignedTo = None,
                  q_createdBy = None, q_dueDate = None \<rparr>"

definition buildQuery :: "date \<Rightarrow> user \<Rightarrow> listFilters \<Rightarrow> query" where
  "buildQuery now u f =
     (let q0 = emptyQuery;
          q1 = (if truthy (f_status f) then q0\<lparr> q_status := Some (StrEq (the (f_status f))) \<rparr>
                else q0);
          q2 = (if truthy (f_priority f) then q1\<lparr> q_priority := f_priority f \<rparr> else q1);
          q3 = (if truthy (f_search f)
                then q2\<lparr> q_or := Some [TitleRegex (the (f_search f)),
                                        DescriptionRegex (the (f_search f))] \<rparr>
                else q2);
          q4 = (case f_assignedTo f of
                  Some Me \<Rightarrow> q3\<lparr> q_assignedTo := Some (user_id u) \<rparr>
                | Some (OtherId i) \<Rightarrow> q3\<lparr> q_assignedTo := Some i \<rparr>
                | None \<Rightarrow> q3);
          q5 = (case f_createdBy f of
                  Some Me \<Rightarrow> q4\<lparr> q_createdBy := Some (user_id u) \<rparr>
                | Some (OtherId i) \<Rightarrow> q4\<lparr> q_createdBy := Some i \<rparr>
                | None \<Rightarrow> q4);
          q6 = (case f_dueDate f of
                  Some dt \<Rightarrow>
                    q5\<lparr> q_dueDate := Some (DateBetween (setHours dt 0 0 0 0)
                                             (setHours (setHours dt 0 0 0 0) 23 59 59 999)) \<rparr>
                | None \<Rightarrow> q5);
          q7 = (if f_overdue f = Some ''true''
                then q6\<lparr> q_dueDate := Some (DateLt now),
                         q_status := Some (StrNe ''completed'') \<rparr>
                else q6);
          q8 = (if role u \<noteq> ''admin''
                then q7\<lparr> q_or := Some [CreatedByIs (user_id u), AssignedToIs (user_id u)] \<rparr>
                else q7)
      in q8)"

text \<open>
  Matching. The regular-expression engine of the store is a parameter: \<open>rx p s\<close> holds
  when pattern \<open>p\<close>, with option \<^verbatim>\<open>i\<close>, matches somewhere in \<open>s\<close>.
\<close>

fun matchesStr :: "strCond \<Rightarrow> string \<Rightarrow> bool" where
  "matchesStr (StrEq v) s = (s = v)"
| "matchesStr (StrNe v) s = (s \<noteq> v)"

fun matchesDate :: "dateCond \<Rightarrow> date option \<Rightarrow> bool" where
  "matchesDate c None = False"
| "matchesDate (DateBetween lo hi) (Some x) = (lo \<le> x \<and> x \<le> hi)"
| "matchesDate (DateLt hi) (Some x) = (x < hi)"

fun matchesClause :: "(string \<Rightarrow> string \<Rightarrow> bool) \<Rightarrow> clause \<Rightarrow> task \<Rightarrow> bool" where
  "matchesClause rx (TitleRegex p) t = rx p (title t)"
| "matchesClause rx (DescriptionRegex p) t =
     (case description t of None \<Rightarrow> False | Some s \<Rightarrow> rx p s)"
| "matchesClause rx (CreatedByIs i) t = (createdBy t = i)"
| "matchesClause rx (AssignedToIs i) t = (assignedTo t = Some i)"

definition matches :: "(string \<Rightarrow> string \<Rightarrow> bool) \<Rightarrow> query \<Rightarrow> task \<Rightarrow> bool" where
  "matches rx q t =
     ((case q_status q of None \<Rightarrow> True | Some c \<Rightarrow> matchesStr c (status t)) \<and>
      (case q_priority q of None \<Rightarrow> True | Some p \<Rightarrow> priority t = p) \<and>
      (case q_or q of None \<Rightarrow> True | Some cs \<Rightarrow> list_ex (\<lambda>c. matchesClause rx c t) cs) \<and>
      (case q_assignedTo q of None \<Rightarrow> True | Some a \<Rightarrow> assignedTo t = Some a) \<and>
      (case q_createdBy q of None \<Rightarrow> True | Some c \<Rightarrow> createdBy t = c) \<and>
      (case q_dueDate q of None \<Rightarrow> True | Some c \<Rightarrow> matchesDate c (dueDate t)))"

text \<open>
  Sorting and paging. The order of the store on the path named by \<^verbatim>\<open>sortBy\<close> is a
  parameter \<open>key\<close>, a rank for each document. The store rejects a negative
  \<^verbatim>\<open>skip\<close>; a \<^verbatim>\<open>limit\<close> of 0 is no limit and a negative one counts as its absolute
  value. \<^verbatim>\<open>Math.ceil(total / limit)\<close> is not a finite number when \<^verbatim>\<open>limit\<close> is 0,
  and is then serialised as \<^verbatim>\<open>null\<close>.
\<close>

definition sortTasks :: "(string \<Rightarrow> task \<Rightarrow> int) \<Rightarrow> string \<Rightarrow> string \<Rightarrow> task list \<Rightarrow> task list" where
  "sortTasks key sortBy sortOrder ts =
     (if sortOrder = ''asc'' then sort_key (key sortBy) ts
      else sort_key (\<lambda>t. - key sortBy t) ts)"

definition limitTasks :: "int \<Rightarrow> 'a list \<Rightarrow> 'a list" where
  "limitTasks n xs = (if n = 0 then xs else take (nat \<bar>n\<bar>) xs)"

definition pageCount :: "nat \<Rightarrow> int \<Rightarrow> int option" where
  "pageCount cnt lim = (if lim = 0 then None else Some (- ((- int cnt) div lim)))"

definition listTasksHandler ::
  "(string \<Rightarrow> string \<Rightarrow> bool) \<Rightarrow> (string \<Rightarrow> task \<Rightarrow> int) \<Rightarrow> date \<Rightarrow> db \<Rightarrow> user
     \<Rightarrow> listFilters \<Rightarrow> response" where
  "listTasksHandler rx key now d u f =
     (let q = buildQuery now u f;
          page = (case f_page f of None \<Rightarrow> 1 | Some p \<Rightarrow> p);
          lim = (case f_limit f of None \<Rightarrow> 10 | Some l \<Rightarrow> l);
          sortBy = (case f_sortBy f of None \<Rightarrow> ''createdAt'' | Some s \<Rightarrow> s);
          sortOrder = (case f_sortOrder f of None \<Rightarrow> ''desc'' | Some s \<Rightarrow> s);
          skip = (page - 1) * lim;
          found = filter (matches rx q) (tasks d)
      in if skip < 0 then (500, InternalError)
         else (200, TaskPage
                 (map (populate d)
                    (limitTasks lim (drop (nat skip) (sortTasks key sortBy sortOrder found))))
                 (length found) page (pageCount (length found) lim)))"

definition listTasks ::
  "(string \<Rightarrow> string \<Rightarrow> bool) \<Rightarrow> (string \<Rightarrow> task \<Rightarrow> int) \<Rightarrow> date \<Rightarrow> db \<Rightarrow> oid option
     \<Rightarrow> listFilters \<Rightarrow> response" where
  "listTasks rx key now d tok f =
     (case requireSignIn d tok of
        Inl r \<Rightarrow> r
      | Inr u \<Rightarrow> listTasksHandler rx key now d u f)"

section \<open>Updating a task (PUT /:id)\<close>

text \<open>
  \<^verbatim>\<open>task[key] = req.body[key]\<close> for every key whose value is not \<^verbatim>\<open>undefined\<close>.
  A path of the document that always holds a value keeps it unless the body gives one
  (\<^verbatim>\<open>null\<close> on such a path never passes: the validators reject it, or \<^verbatim>\<open>save()\<close>
  does for \<^verbatim>\<open>createdBy\<close>); an optional path is cleared by \<^verbatim>\<open>null\<close>.
\<close>

fun setField :: "'a jsfield \<Rightarrow> 'a \<Rightarrow> 'a" where
  "setField (Val v) old = v"
| "setField Null old = old"
| "setField Undefined old = old"

fun setOptField :: "'a jsfield \<Rightarrow> 'a option \<Rightarrow> 'a option" where
  "setOptField (Val v) old = Some v"
| "setOptField Null old = None"
| "setOptField Undefined old = old"

fun mapField :: "('a \<Rightarrow> 'b) \<Rightarrow> 'a jsfield \<Rightarrow> 'b jsfield" where
  "mapField g (Val v) = Val (g v)"
| "mapField g Null = Null"
| "mapField g Undefined = Undefined"

definition applyBody :: "taskBody \<Rightarrow> task \<Rightarrow> task" where
  "applyBody b t =
     t\<lparr> title := setField (mapField trim (b_title b)) (title t),
        description := setOptField (mapField trim (b_description b)) (description t),
        status := setField (b_status b) (status t),
        priority := setField (b_priority b) (priority t),
        dueDate := setOptField (b_dueDate b) (dueDate t),
        createdBy := setField (b_createdBy b) (createdBy t),
        assignedTo := setOptField (mapField castId (b_assignedTo b)) (assignedTo t),
        tags := setField (mapField (map trim) (b_tags b)) (tags t),
        isRecurring := setField (b_isRecurring b) (isRecurring t),
        recurringType := setField (b_recurringType b) (recurringType t),
        recurringEndDate := setOptField (b_recurringEndDate b) (recurringEndDate t) \<rparr>"

text \<open>\<^verbatim>\<open>task.save()\<close> on a loaded document writes it over the stored one with its id.\<close>

fun replaceById :: "task \<Rightarrow> task list \<Rightarrow> task list" where
  "replaceById t [] = []"
| "replaceById t (x # xs) = (if task_id x = task_id t then t # xs else x # replaceById t xs)"

definition saveTask :: "db \<Rightarrow> task \<Rightarrow> db" where
  "saveTask d t = d\<lparr> tasks := replaceById t (tasks d),
                      writes := writes d @ [SavedTask t] \<rparr>"

text \<open>
  The handler tests the new assignee as strings: \<^verbatim>\<open>oldAssignedTo?.toString() !==
  req.body.assignedTo.toString()\<close> and \<^verbatim>\<open>req.body.assignedTo.toString() !==
  req.user._id.toString()\<close>; the old assignee, for the second notification, with
  \<^verbatim>\<open>equals\<close> on ObjectIds.
\<close>

fun truthyField :: "string jsfield \<Rightarrow> bool" where
  "truthyField (Val s) = (s \<noteq> [])"
| "truthyField Null = False"
| "truthyField Undefined = False"

definition updateTaskHandler ::
  "(notification \<Rightarrow> bool) \<Rightarrow> db \<Rightarrow> user \<Rightarrow> task \<Rightarrow> taskBody \<Rightarrow> db \<times> response" where
  "updateTaskHandler sv d u t0 b =
     (if \<not> validateUpdate b then (d, (400, ValidationErrors))
      else
        let oldAssignedTo = assignedTo t0;
            t = applyBody b t0;
            wasCompleted = (b_status b = Val ''completed'' \<and>
                            status t \<noteq> ''completed'' \<and>
                            isRecurring t \<and>
                            recurringType t \<noteq> ''none'')
        in if b_createdBy b = Null \<or> \<not> taskValid t then (d, (500, InternalError))
           else
             let d1 = saveTask d t;
                 d2 = (case b_assignedTo b of
                         Val a \<Rightarrow>
                           if \<not> (case oldAssignedTo of
                                   None \<Rightarrow> False
                                 | Some old \<Rightarrow> sameString a old) \<and>
                              \<not> sameString a (user_id u)
                           then fst (createNotification sv d1 ''task-assigned'' (user_id u)
                                       (castId a)
                                       (name u @ '' assigned you a task: '' @ title t)
                                       (Some (task_id t)))
                           else d1
                       | _ \<Rightarrow> d1);
                 d3 = (case oldAssignedTo of
                         Some old \<Rightarrow>
                           if truthyField (b_status b) \<and> old \<noteq> user_id u
                           then fst (createNotification sv d2 ''task-updated'' (user_id u) old
                                       (name u @ '' updated the status of task '' @ [CHR 0x22] @
                                        title t @ [CHR 0x22] @ '' to '' @
                                        fromField [] (b_status b))
                                       (Some (task_id t)))
                           else d2
                       | None \<Rightarrow> d2);
                 d4 = (if wasCompleted then
                         (case createRecurringTask d3 t (recurringType t) of
                            (d', Some nt) \<Rightarrow>
                              (case assignedTo nt of
                                 Some a \<Rightarrow>
                                   fst (createNotification sv d' ''task-assigned'' (user_id u) a
                                          (''A recurring task has been created: '' @ title nt)
                                          (Some (task_id nt)))
                               | None \<Rightarrow> d')
                          | (d', None) \<Rightarrow> d')
                       else d3)
             in (d4, (200, TaskUpdated t)))"

definition updateTask ::
  "(notification \<Rightarrow> bool) \<Rightarrow> db \<Rightarrow> oid option \<Rightarrow> oid \<Rightarrow> taskBody \<Rightarrow> db \<times> response" where
  "updateTask sv d tok i b =
     (case requireSignIn d tok of
        Inl r \<Rightarrow> (d, r)
      | Inr u \<Rightarrow>
          (case isTaskCreatorOrAdmin d u i of
             Inl r \<Rightarrow> (d, r)
           | Inr t \<Rightarrow> updateTaskHandler sv d u t b))"

section \<open>Deleting a task (DELETE /:id)\<close>

fun removeById :: "oid \<Rightarrow> task list \<Rightarrow> task list" where
  "removeById i [] = []"
| "removeById i (x # xs) = (if task_id x = i then xs else x # removeById i xs)"

text \<open>
  The handler first tells the assignee, then removes the document:
  \<open>notifyDeletion\<close> is the first statement, \<^verbatim>\<open>findByIdAndDelete\<close> the second.
\<close>

definition notifyDeletion :: "(notification \<Rightarrow> bool) \<Rightarrow> db \<Rightarrow> user \<Rightarrow> task \<Rightarrow> db" where
  "notifyDeletion sv d u t =
     (case assignedTo t of
        Some a \<Rightarrow>
          if a \<noteq> user_id u
          then fst (createNotification sv d ''task-deleted'' (user_id u) a
                      (name u @ '' deleted a task that was assigned to you: '' @ title t)
                      None)
          else d
      | None \<Rightarrow> d)"

definition findByIdAndDelete :: "db \<Rightarrow> oid \<Rightarrow> db" where
  "findByIdAndDelete d i = d\<lparr> tasks := removeById i (tasks d),
                               writes := writes d @ [DeletedTask i] \<rparr>"

definition deleteTaskHandler ::
  "(notification \<Rightarrow> bool) \<Rightarrow> db \<Rightarrow> user \<Rightarrow> task \<Rightarrow> oid \<Rightarrow> db \<times> response" where
  "deleteTaskHandler sv d u t i =
     (let d1 = notifyDeletion sv d u t;
          d2 = findByIdAndDelete d1 i
      in (d2, (200, TaskDeleted)))"

definition deleteTask ::
  "(notification \<Rightarrow> bool) \<Rightarrow> db \<Rightarrow> oid option \<Rightarrow> oid \<Rightarrow> db \<times> response" where
  "deleteTask sv d tok i =
     (case requireSignIn d tok of
        Inl r \<Rightarrow> (d, r)
      | Inr u \<Rightarrow>
          (case isTaskCreatorOrAdmin d u i of
             Inl r \<Rightarrow> (d, r)
           | Inr t \<Rightarrow> deleteTaskHandler sv d u t i))"

section \<open>Batch update (POST /batch-update)\<close>

text \<open>
  The \<^verbatim>\<open>updates\<close> object is the list of its entries, each a key with the value that
  \<^verbatim>\<open>$set\<close> casts for it; an entry for a key other than the three below keeps the key
  only. \<^verbatim>\<open>taskIds\<close> is \<open>None\<close> when it is missing or not an array, \<^verbatim>\<open>updates\<close>
  is \<open>None\<close> when it is missing.
\<close>

datatype update =
    SetStatus string
  | SetPriority string
  | SetAssignedTo "oid option"
  | SetOther string

fun updateKey :: "update \<Rightarrow> string" where
  "updateKey (SetStatus v) = ''status''"
| "updateKey (SetPriority v) = ''priority''"
| "updateKey (SetAssignedTo v) = ''assignedTo''"
| "updateKey (SetOther k) = k"

definition allowedUpdates :: "string list" where
  "allowedUpdates = [''status'', ''priority'', ''assignedTo'']"

fun applyUpdate :: "update \<Rightarrow> task \<Rightarrow> task" where
  "applyUpdate (SetStatus v) t = t\<lparr> status := v \<rparr>"
| "applyUpdate (SetPriority v) t = t\<lparr> priority := v \<rparr>"
| "applyUpdate (SetAssignedTo v) t = t\<lparr> assignedTo := v \<rparr>"
| "applyUpdate (SetOther k) t = t"

definition applyUpdates :: "update list \<Rightarrow> task \<Rightarrow> task" where
  "applyUpdates us t = fold applyUpdate us t"

text \<open>\<^verbatim>\<open>updates.assignedTo\<close>: the value of the last entry for that key, if any.\<close>

definition updatesAssignedTo :: "update list \<Rightarrow> oid option" where
  "updatesAssignedTo us =
     fold (\<lambda>x acc. case x of SetAssignedTo v \<Rightarrow> v | _ \<Rightarrow> acc) us None"

fun notifyAssigned ::
  "(notification \<Rightarrow> bool) \<Rightarrow> db \<Rightarrow> user \<Rightarrow> oid \<Rightarrow> task list \<Rightarrow> db" where
  "notifyAssigned sv d u a [] = d"
| "notifyAssigned sv d u a (t # ts) =
     notifyAssigned sv
       (fst (createNotification sv d ''task-assigned'' (user_id u) a
               (name u @ '' assigned you a task: '' @ title t) (Some (task_id t))))
       u a ts"

text \<open>
  \<^verbatim>\<open>updateMany\<close> runs no validators. The schema's \<^verbatim>\<open>timestamps\<close> option makes it
  touch every matched document, so \<^verbatim>\<open>modifiedCount\<close> is the number of matches.
\<close>

definition batchUpdateHandler ::
  "(notification \<Rightarrow> bool) \<Rightarrow> db \<Rightarrow> user \<Rightarrow> oid list option \<Rightarrow> update list option
     \<Rightarrow> db \<times> response" where
  "batchUpdateHandler sv d u taskIds updates =
     (case taskIds of
        None \<Rightarrow> (d, (400, ErrorMessage ''Task IDs array is required''))
      | Some ids \<Rightarrow>
          if ids = [] then (d, (400, ErrorMessage ''Task IDs array is required''))
          else
            (case updates of
               None \<Rightarrow> (d, (400, ErrorMessage ''Updates object is required''))
             | Some us \<Rightarrow>
                 if us = [] then (d, (400, ErrorMessage ''Updates object is required''))
                 else if \<not> list_all (\<lambda>k. k \<in> set allowedUpdates) (map updateKey us)
                 then (d, (400, ErrorMessage
                     ''Invalid updates. Only status, priority, and assignedTo can be batch updated.''))
                 else
                   let d1 = d\<lparr> tasks := map (\<lambda>t. if task_id t \<in> set ids
                                                   then applyUpdates us t else t) (tasks d),
                               writes := writes d @ [UpdatedMany ids] \<rparr>;
                       modifiedCount = length (filter (\<lambda>t. task_id t \<in> set ids) (tasks d));
                       d2 = (case updatesAssignedTo us of
                               Some a \<Rightarrow>
                                 notifyAssigned sv d1 u a
                                   (filter (\<lambda>t. task_id t \<in> set ids) (tasks d1))
                             | None \<Rightarrow> d1)
                   in (d2, (200, TasksUpdated modifiedCount))))"

definition batchUpdate ::
  "(notification \<Rightarrow> bool) \<Rightarrow> db \<Rightarrow> oid option \<Rightarrow> oid list option \<Rightarrow> update list option
     \<Rightarrow> db \<times> response" where
  "batchUpdate sv d tok taskIds updates =
     (case requireSignIn d tok of
        Inl r \<Rightarrow> (d, r)
      | Inr u \<Rightarrow>
          (case hasRole [''admin'', ''manager''] u of
             Inl r \<Rightarrow> (d, r)
           | Inr _ \<Rightarrow> batchUpdateHandler sv d u taskIds updates))"

section \<open>Observations on responses and stores\<close>

text \<open>The tasks that a response of the list query shows, and its status code.\<close>

fun responseTasks :: "response \<Rightarrow> task list" where
  "responseTasks (c, TaskPage items n pg pgs) = map fst items"
| "responseTasks (c, other) = []"

definition statusCode :: "db \<times> response \<Rightarrow> nat" where
  "statusCode r = fst (snd r)"

text \<open>The notifications that a request added: those of \<open>d'\<close> beyond those of \<open>d\<close>.\<close>

definition newNotifications :: "db \<Rightarrow> db \<Rightarrow> notification list" where
  "newNotifications d d' = drop (length (notifications d)) (notifications d')"

text \<open>The writes that a request made the store carry out: those of \<open>d'\<close> beyond those of \<open>d\<close>.\<close>

definition newWrites :: "db \<Rightarrow> db \<Rightarrow> storeWrite list" where
  "newWrites d d' = drop (length (writes d)) (writes d')"

text \<open>
  \<open>addsOnly Q d d'\<close>: the notifications of \<open>d'\<close> are those of \<open>d\<close> followed by new ones
  that all satisfy \<open>Q\<close>.
\<close>

definition addsOnly :: "(notification \<Rightarrow> bool) \<Rightarrow> db \<Rightarrow> db \<Rightarrow> bool" where
  "addsOnly Q d d' =
     (take (length (notifications d)) (notifications d') = notifications d \<and>
      list_all Q (newNotifications d d'))"

text \<open>
  The batch update as the specification words it, ``applies the same update to a set of
  task ids'', restricted to the three fields: the value that the \<^verbatim>\<open>updates\<close> object
  holds for a key is that of its last entry with that key, and \<open>withUpdates us t\<close> is
  \<open>t\<close> with status, priority and assignee replaced by the values that the object holds
  for them, where it holds one, and every other field as it was.
\<close>

fun statusOf :: "update \<Rightarrow> string option" where
  "statusOf (SetStatus v) = Some v"
| "statusOf x = None"

fun priorityOf :: "update \<Rightarrow> string option" where
  "priorityOf (SetPriority v) = Some v"
| "priorityOf x = None"

fun assigneeOf :: "update \<Rightarrow> oid option option" where
  "assigneeOf (SetAssignedTo v) = Some v"
| "assigneeOf x = None"

fun lastValue :: "(update \<Rightarrow> 'a option) \<Rightarrow> update list \<Rightarrow> 'a option" where
  "lastValue sel [] = None"
| "lastValue sel (x # xs) =
     (case lastValue sel xs of Some v \<Rightarrow> Some v | None \<Rightarrow> sel x)"

definition withUpdates :: "update list \<Rightarrow> task \<Rightarrow> task" where
  "withUpdates us t =
     \<lparr> task_id = task_id t, title = title t, description = description t,
       status = (case lastValue statusOf us of Some v \<Rightarrow> v | None \<Rightarrow> status t),
       priority = (case lastValue priorityOf us of Some v \<Rightarrow> v | None \<Rightarrow> priority t),
       dueDate = dueDate t, createdBy = createdBy t,
       assignedTo = (case lastValue assigneeOf us of Some v \<Rightarrow> v | None \<Rightarrow> assignedTo t),
       tags = tags t, isRecurring = isRecurring t, recurringType = recurringType t,
       recurringEndDate = recurringEndDate t \<rparr>"

text \<open>
  The substring test that the specification words for \<^verbatim>\<open>search\<close>: \<open>s\<close> occurs in
  \<open>t\<close>, upper and lower case of the ASCII letters taken as equal.
\<close>

definition toLower :: "char \<Rightarrow> char" where
  "toLower c =
     (if 65 \<le> (of_char c :: nat) \<and> (of_char c :: nat) \<le> 90
      then char_of ((of_char c :: nat) + 32) else c)"

fun isPrefixOf :: "string \<Rightarrow> string \<Rightarrow> bool" where
  "isPrefixOf [] ys = True"
| "isPrefixOf (x # xs) [] = False"
| "isPrefixOf (x # xs) (y # ys) = (x = y \<and> isPrefixOf xs ys)"

fun occursIn :: "string \<Rightarrow> string \<Rightarrow> bool" where
  "occursIn s [] = (s = [])"
| "occursIn s (y # ys) = (isPrefixOf s (y # ys) \<or> occursIn s ys)"

definition containsIgnoreCase :: "string \<Rightarrow> string \<Rightarrow> bool" where
  "containsIgnoreCase s t = occursIn (map toLower s) (map toLower t)"

section \<open>Example data\<close>

definition alice :: user where
  "alice = \<lparr> user_id = 1, name = ''Alice'', email = ''alice@example.com'', role = ''admin'' \<rparr>"

definition bob :: user where
  "bob = \<lparr> user_id = 2, name = ''Bob'', email = ''bob@example.com'', role = ''manager'' \<rparr>"

definition carol :: user where
  "carol = \<lparr> user_id = 3, name = ''Carol'', email = ''carol@example.com'', role = ''user'' \<rparr>"

definition dave :: user where
  "dave = \<lparr> user_id = 4, name = ''Dave'', email = ''dave@example.com'', role = ''user'' \<rparr>"

text \<open>
  A daily recurring task of Carol's, assigned to Dave, due 2024-01-10T00:00:00Z, and a
  task of Alice's assigned to Bob.
\<close>

definition reportTask :: task where
  "reportTask =
     \<lparr> task_id = 10, title = ''Write report'', description = None, status = ''todo'',
       priority = ''medium'', dueDate = Some 1704844800000, createdBy = 3,
       assignedTo = Some 4, tags = [], isRecurring = True, recurringType = ''daily'',
       recurringEndDate = None \<rparr>"

definition sprintTask :: task where
  "sprintTask =
     \<lparr> task_id = 11, title = ''Plan sprint'', description = Some ''Backlog grooming'',
       status = ''in-progress'', priority = ''high'', dueDate = None, createdBy = 1,
       assignedTo = Some 2, tags = [], isRecurring = False, recurringType = ''none'',
       recurringEndDate = None \<rparr>"

definition exampleDb :: db where
  "exampleDb = \<lparr> users = [alice, bob, carol, dave], tasks = [reportTask, sprintTask],
                 notifications = [], nextId = 12, writes = [] \<rparr>"

definition emptyBody :: taskBody where
  "emptyBody =
     \<lparr> b_title = Undefined, b_description = Undefined, b_status = Undefined,
       b_priority = Undefined, b_dueDate = Undefined, b_createdBy = Undefined,
       b_assignedTo = Undefined, b_tags = Undefined, b_isRecurring = Undefined,
       b_recurringType = Undefined, b_recurringEndDate = Undefined \<rparr>"

definition saveSucceeds :: "notification \<Rightarrow> bool" where
  "saveSucceeds n = True"

definition saveFails :: "notification \<Rightarrow> bool" where
  "saveFails n = False"


definition noFilters :: listFilters where
  "noFilters =
     \<lparr> f_status = None, f_priority = None, f_dueDate = None, f_search = None,
       f_assignedTo = None, f_createdBy = None, f_overdue = None, f_page = None,
       f_limit = None, f_sortBy = None, f_sortOrder = None \<rparr>"

definition byId :: "string \<Rightarrow> task \<Rightarrow> int" where
  "byId path t = int (task_id t)"

section \<open>Properties\<close>

subsection \<open>Lookups\<close>




subsection \<open>Frame of the notification helpers\<close>

lemma createNotification_frame:
  "tasks (fst (createNotification sv d ty s r m k)) = tasks d"
  "users (fst (createNotification sv d ty s r m k)) = users d"
  "nextId (fst (createNotification sv d ty s r m k)) = nextId d"
  by (simp_all add: createNotification_def Let_def)

lemma createNotification_ext:
  "\<exists>ns. notifications (fst (createNotification sv d ty s r m k)) = notifications d @ ns \<and>
        (\<forall>n \<in> set ns. ntype n = ty \<and> sender n = s \<and> recipient n = r \<and> relatedTask n = k)"
  by (simp add: createNotification_def Let_def)

lemma notifyAssigned_frame:
  "tasks (notifyAssigned sv d u a ts) = tasks d"
  "users (notifyAssigned sv d u a ts) = users d"
  "nextId (notifyAssigned sv d u a ts) = nextId d"
  by (induction ts arbitrary: d) (simp_all add: createNotification_frame)

lemma status_applyBody: "b_status b = Val s \<Longrightarrow> status (applyBody b t) = s"
  by (simp add: applyBody_def)

lemma wasCompleted_False:
  "\<not> (b_status b = Val ''completed'' \<and> status (applyBody b t) \<noteq> ''completed'' \<and> X \<and> Y)"
  using status_applyBody by blast

lemma updateTaskHandler_tasks:
  "tasks (fst (updateTaskHandler sv d u t0 b)) =
     (if validateUpdate b \<and> b_createdBy b \<noteq> Null \<and> taskValid (applyBody b t0)
      then replaceById (applyBody b t0) (tasks d) else tasks d)"
  by (simp add: updateTaskHandler_def Let_def wasCompleted_False createNotification_frame
      saveTask_def split: jsfield.splits option.splits)

lemma updateTaskHandler_response:
  "snd (updateTaskHandler sv d u t0 b) =
     (if \<not> validateUpdate b then (400, ValidationErrors)
      else if b_createdBy b = Null \<or> \<not> taskValid (applyBody b t0) then (500, InternalError)
      else (200, TaskUpdated (applyBody b t0)))"
  by (simp add: updateTaskHandler_def Let_def)

lemma createTaskHandler_tasks:
  "tasks (fst (createTaskHandler sv d u b)) =
     (if validateCreate b \<and> taskValid (newTask (nextId d) (user_id u) b)
      then tasks d @ [newTask (nextId d) (user_id u) b] else tasks d)"
  by (simp add: createTaskHandler_def Let_def createNotification_frame split: option.splits)

lemma createTaskHandler_response:
  "snd (createTaskHandler sv d u b) =
     (if \<not> validateCreate b then (400, ValidationErrors)
      else if \<not> taskValid (newTask (nextId d) (user_id u) b) then (500, InternalError)
      else (201, TaskCreated (newTask (nextId d) (user_id u) b)))"
  by (simp add: createTaskHandler_def Let_def)

lemma notifyDeletion_frame: "tasks (notifyDeletion sv d u t) = tasks d"
  by (simp add: notifyDeletion_def createNotification_frame split: option.splits)

lemma deleteTaskHandler_tasks:
  "tasks (fst (deleteTaskHandler sv d u t i)) = removeById i (tasks d)"
  by (simp add: deleteTaskHandler_def Let_def findByIdAndDelete_def notifyDeletion_frame)

lemma deleteTaskHandler_response:
  "snd (deleteTaskHandler sv d u t i) = (200, TaskDeleted)"
  by (simp add: deleteTaskHandler_def Let_def)

lemma batchUpdateHandler_tasks:
  "tasks (fst (batchUpdateHandler sv d u taskIds updates)) =
     (case (taskIds, updates) of
        (Some ids, Some us) \<Rightarrow>
          if ids \<noteq> [] \<and> us \<noteq> [] \<and> list_all (\<lambda>k. k \<in> set allowedUpdates) (map updateKey us)
          then map (\<lambda>t. if task_id t \<in> set ids then applyUpdates us t else t) (tasks d)
          else tasks d
      | _ \<Rightarrow> tasks d)"
  by (simp add: batchUpdateHandler_def Let_def notifyAssigned_frame split: option.splits)

lemma batchUpdateHandler_response:
  "snd (batchUpdateHandler sv d u taskIds updates) =
   snd (batchUpdateHandler sv' d u taskIds updates)"
  by (simp add: batchUpdateHandler_def Let_def split: option.splits)

text \<open>
  Claim C9. Whether the store accepts or refuses the notification records of a request
  has no effect on the response or on the stored tasks: for any two outcomes \<open>sv\<close> and
  \<open>sv'\<close> of the notification writes (one may accept everything, the other refuse
  everything), create, update, delete and batch update answer the same and leave the same
  tasks.
\<close>

theorem notification_failure_recovered:
  "snd (createTask sv d tok b) = snd (createTask sv' d tok b) \<and>
   tasks (fst (createTask sv d tok b)) = tasks (fst (createTask sv' d tok b)) \<and>
   snd (updateTask sv d tok i b) = snd (updateTask sv' d tok i b) \<and>
   tasks (fst (updateTask sv d tok i b)) = tasks (fst (updateTask sv' d tok i b)) \<and>
   snd (deleteTask sv d tok i) = snd (deleteTask sv' d tok i) \<and>
   tasks (fst (deleteTask sv d tok i)) = tasks (fst (deleteTask sv' d tok i)) \<and>
   snd (batchUpdate sv d tok ids us) = snd (batchUpdate sv' d tok ids us) \<and>
   tasks (fst (batchUpdate sv d tok ids us)) = tasks (fst (batchUpdate sv' d tok ids us))"
proof -
  have c: "snd (createTask sv d tok b) = snd (createTask sv' d tok b) \<and>
           tasks (fst (createTask sv d tok b)) = tasks (fst (createTask sv' d tok b))"
    by (simp add: createTask_def createTaskHandler_tasks createTaskHandler_response
        split: sum.splits)
  have u: "snd (updateTask sv d tok i b) = snd (updateTask sv' d tok i b) \<and>
           tasks (fst (updateTask sv d tok i b)) = tasks (fst (updateTask sv' d tok i b))"
    by (simp add: updateTask_def updateTaskHandler_tasks updateTaskHandler_response
        split: sum.splits)
  have dl: "snd (deleteTask sv d tok i) = snd (deleteTask sv' d tok i) \<and>
           tasks (fst (deleteTask sv d tok i)) = tasks (fst (deleteTask sv' d tok i))"
    by (simp add: deleteTask_def deleteTaskHandler_tasks deleteTaskHandler_response
        split: sum.splits)
  have bt: "snd (batchUpdate sv d tok ids us) = snd (batchUpdate sv' d tok ids us) \<and>
           tasks (fst (batchUpdate sv d tok ids us)) = tasks (fst (batchUpdate sv' d tok ids us))"
    using batchUpdateHandler_response[of sv d _ ids us sv']
    by (simp add: batchUpdate_def batchUpdateHandler_tasks split: sum.splits)
  show ?thesis using c u dl bt by blast
qed


theorem notification_failure_recovered_witness:
  "snd (deleteTask saveFails exampleDb (Some 3) 10) = (200, TaskDeleted) \<and>
   tasks (fst (deleteTask saveFails exampleDb (Some 3) 10)) = [sprintTask] \<and>
   notifications (fst (deleteTask saveFails exampleDb (Some 3) 10)) = [] \<and>
   length (notifications (fst (deleteTask saveSucceeds exampleDb (Some 3) 10))) = 1"
proof -
  have a: "snd (deleteTask saveSucceeds exampleDb (Some 3) 10) = (200, TaskDeleted)"
    by code_simp
  have b: "tasks (fst (deleteTask saveSucceeds exampleDb (Some 3) 10)) = [sprintTask]"
    by code_simp
  have c: "notifications (fst (deleteTask saveFails exampleDb (Some 3) 10)) = []"
    by code_simp
  have e: "length (notifications (fst (deleteTask saveSucceeds exampleDb (Some 3) 10))) = 1"
    by code_simp
  show ?thesis
    using notification_failure_recovered[where sv = saveFails and sv' = saveSucceeds
        and d = exampleDb and tok = "Some 3" and i = 10] a b c e
    by simp
qed

subsection \<open>Access to one task\<close>






subsection \<open>The list query\<close>

lemma buildQuery_or_non_admin:
  "role u \<noteq> ''admin'' \<Longrightarrow>
   q_or (buildQuery now u f) = Some [CreatedByIs (user_id u), AssignedToIs (user_id u)]"
  by (simp add: buildQuery_def Let_def)

lemma matches_visible:
  "role u \<noteq> ''admin'' \<Longrightarrow> matches rx (buildQuery now u f) t \<Longrightarrow>
   createdBy t = user_id u \<or> assignedTo t = Some (user_id u)"
  by (auto simp: matches_def buildQuery_or_non_admin)

lemma set_sortTasks: "set (sortTasks key sb so ts) = set ts"
  by (simp add: sortTasks_def)

lemma set_limitTasks: "set (limitTasks n xs) \<subseteq> set xs"
  by (auto simp: limitTasks_def dest: in_set_takeD)

lemma fst_populate: "fst (populate d t) = t"
  by (simp add: populate_def)

lemma responseTasks_listTasksHandler:
  "set (responseTasks (listTasksHandler rx key now d u f)) \<subseteq>
   {t \<in> set (tasks d). matches rx (buildQuery now u f) t}"
proof -
  have "set (limitTasks lim (drop k (sortTasks key sb so (filter (matches rx q) (tasks d)))))
        \<subseteq> {t \<in> set (tasks d). matches rx q t}" for lim k sb so q
    using set_limitTasks[of lim "drop k (sortTasks key sb so (filter (matches rx q) (tasks d)))"]
      set_drop_subset[of k "sortTasks key sb so (filter (matches rx q) (tasks d))"]
    by (auto simp: set_sortTasks)
  then show ?thesis
    by (simp add: listTasksHandler_def Let_def comp_def fst_populate)
qed

text \<open>
  Claim C2. For a signed-in principal whose role is not admin, every task that the list
  query returns, whatever the filters, paging and sort, has the principal as its creator
  or as its assignee.
\<close>

theorem list_visibility:
  assumes "requireSignIn d tok = Inr P" and "role P \<noteq> ''admin''"
  shows "\<forall>t \<in> set (responseTasks (listTasks rx key now d tok f)).
           createdBy t = user_id P \<or> assignedTo t = Some (user_id P)"
  using assms responseTasks_listTasksHandler[of rx key now d P f]
  by (auto simp: listTasks_def dest: matches_visible)

theorem list_visibility_witness:
  "requireSignIn exampleDb (Some 4) = Inr dave \<and> role dave \<noteq> ''admin'' \<and>
   responseTasks (listTasks containsIgnoreCase byId 0 exampleDb (Some 4) noFilters)
     = [reportTask] \<and>
   (createdBy reportTask = user_id dave \<or> assignedTo reportTask = Some (user_id dave))"
proof -
  have h1: "requireSignIn exampleDb (Some 4) = Inr dave"
    by code_simp
  have h2: "role dave \<noteq> ''admin''" by (simp add: dave_def)
  have h3: "responseTasks (listTasks containsIgnoreCase byId 0 exampleDb (Some 4) noFilters)
            = [reportTask]"
    by code_simp
  have "createdBy reportTask = user_id dave \<or> assignedTo reportTask = Some (user_id dave)"
    using list_visibility[OF h1 h2, of containsIgnoreCase byId 0 noFilters] h3 by simp
  then show ?thesis using h1 h2 h3 by simp
qed

subsection \<open>What each handler adds to the notifications\<close>

lemma addsOnly_iff:
  "addsOnly Q d d' \<longleftrightarrow>
   (\<exists>ns. notifications d' = notifications d @ ns \<and> (\<forall>n \<in> set ns. Q n))"
proof
  assume a: "addsOnly Q d d'"
  have "notifications d' =
        take (length (notifications d)) (notifications d') @
        drop (length (notifications d)) (notifications d')"
    by simp
  with a show "\<exists>ns. notifications d' = notifications d @ ns \<and> (\<forall>n \<in> set ns. Q n)"
    unfolding addsOnly_def newNotifications_def list_all_iff by metis
next
  assume "\<exists>ns. notifications d' = notifications d @ ns \<and> (\<forall>n \<in> set ns. Q n)"
  then show "addsOnly Q d d'"
    by (auto simp: addsOnly_def newNotifications_def list_all_iff)
qed

lemma addsOnly_refl: "addsOnly Q d d"
  by (simp add: addsOnly_iff)

lemma addsOnly_same: "notifications d' = notifications d \<Longrightarrow> addsOnly Q d d'"
  by (simp add: addsOnly_iff)

lemma addsOnly_trans: "addsOnly Q d d1 \<Longrightarrow> addsOnly Q d1 d2 \<Longrightarrow> addsOnly Q d d2"
  unfolding addsOnly_iff by (metis UnE append.assoc set_append)

lemma addsOnly_new: "addsOnly Q d d' \<Longrightarrow> n \<in> set (newNotifications d d') \<Longrightarrow> Q n"
  by (simp add: addsOnly_def list_all_iff)

lemma addsOnly_createNotification:
  "(\<And>n. ntype n = ty \<Longrightarrow> sender n = s \<Longrightarrow> recipient n = r \<Longrightarrow> relatedTask n = k \<Longrightarrow> Q n)
   \<Longrightarrow> addsOnly Q d (fst (createNotification sv d ty s r m k))"
  unfolding addsOnly_iff using createNotification_ext[of sv d ty s r m k] by blast

lemma addsOnly_notifyAssigned:
  "(\<And>n. ntype n = ''task-assigned'' \<Longrightarrow> sender n = user_id u \<Longrightarrow> recipient n = a \<Longrightarrow> Q n)
   \<Longrightarrow> addsOnly Q d (notifyAssigned sv d u a ts)"
proof (induction ts arbitrary: d)
  case Nil
  then show ?case by (simp add: addsOnly_refl)
next
  case (Cons t ts)
  have "addsOnly Q d (fst (createNotification sv d ''task-assigned'' (user_id u) a
               (name u @ '' assigned you a task: '' @ title t) (Some (task_id t))))"
    by (rule addsOnly_createNotification) (rule Cons.prems)
  moreover have "addsOnly Q (fst (createNotification sv d ''task-assigned'' (user_id u) a
               (name u @ '' assigned you a task: '' @ title t) (Some (task_id t))))
          (notifyAssigned sv (fst (createNotification sv d ''task-assigned'' (user_id u) a
               (name u @ '' assigned you a task: '' @ title t) (Some (task_id t)))) u a ts)"
    by (rule Cons.IH) (rule Cons.prems)
  ultimately show ?case by (simp add: addsOnly_trans)
qed

lemma createTaskHandler_adds:
  "addsOnly (\<lambda>n. ntype n = ''task-assigned'' \<and> sender n = user_id u \<and> recipient n \<noteq> user_id u)
     d (fst (createTaskHandler sv d u b))"
proof -
  let ?Q = "\<lambda>n. ntype n = ''task-assigned'' \<and> sender n = user_id u \<and> recipient n \<noteq> user_id u"
  let ?t = "newTask (nextId d) (user_id u) b"
  let ?d1 = "d\<lparr> tasks := tasks d @ [?t], nextId := Suc (nextId d),
                writes := writes d @ [SavedTask ?t] \<rparr>"
  let ?d2 = "(case assignedTo ?t of
                Some a \<Rightarrow>
                  if a \<noteq> user_id u
                  then fst (createNotification sv ?d1 ''task-assigned'' (user_id u) a
                              (name u @ '' assigned you a new task: '' @ title ?t)
                              (Some (task_id ?t)))
                  else ?d1
              | None \<Rightarrow> ?d1)"
  have 1: "addsOnly ?Q d ?d1" by (rule addsOnly_same) simp
  have 2: "addsOnly ?Q ?d1 ?d2"
  proof (cases "assignedTo ?t")
    case None
    then show ?thesis by (simp add: addsOnly_refl)
  next
    case (Some a)
    show ?thesis
    proof (cases "a = user_id u")
      case True
      with Some show ?thesis by (simp add: addsOnly_refl)
    next
      case False
      have "addsOnly ?Q ?d1 (fst (createNotification sv ?d1 ''task-assigned'' (user_id u) a
                              (name u @ '' assigned you a new task: '' @ title ?t)
                              (Some (task_id ?t))))"
        by (rule addsOnly_createNotification) (simp add: False)
      with Some False show ?thesis by simp
    qed
  qed
  have 12: "addsOnly ?Q d ?d2" by (rule addsOnly_trans[OF 1 2])
  show ?thesis
  proof (cases "validateCreate b \<and> taskValid ?t")
    case True
    then have "fst (createTaskHandler sv d u b) = ?d2"
      by (simp add: createTaskHandler_def Let_def)
    then show ?thesis using 12 by simp
  next
    case False
    then have "fst (createTaskHandler sv d u b) = d"
      by (auto simp: createTaskHandler_def Let_def)
    then show ?thesis by (simp add: addsOnly_refl)
  qed
qed

lemma deleteTaskHandler_adds:
  "addsOnly (\<lambda>n. ntype n = ''task-deleted'' \<and> relatedTask n = None \<and> sender n = user_id u \<and>
                 recipient n \<noteq> user_id u)
     d (fst (deleteTaskHandler sv d u t i))"
proof -
  have 1: "addsOnly (\<lambda>n. ntype n = ''task-deleted'' \<and> relatedTask n = None \<and>
                 sender n = user_id u \<and> recipient n \<noteq> user_id u) d (notifyDeletion sv d u t)"
  proof (cases "assignedTo t")
    case None
    then show ?thesis by (simp add: notifyDeletion_def addsOnly_refl)
  next
    case (Some a)
    show ?thesis
    proof (cases "a = user_id u")
      case True
      with Some show ?thesis by (simp add: notifyDeletion_def addsOnly_refl)
    next
      case False
      have "addsOnly (\<lambda>n. ntype n = ''task-deleted'' \<and> relatedTask n = None \<and>
                 sender n = user_id u \<and> recipient n \<noteq> user_id u) d
              (fst (createNotification sv d ''task-deleted'' (user_id u) a
                      (name u @ '' deleted a task that was assigned to you: '' @ title t) None))"
        by (rule addsOnly_createNotification) (simp add: False)
      with Some False show ?thesis by (simp add: notifyDeletion_def)
    qed
  qed
  have 2: "addsOnly (\<lambda>n. ntype n = ''task-deleted'' \<and> relatedTask n = None \<and>
                 sender n = user_id u \<and> recipient n \<noteq> user_id u)
             (notifyDeletion sv d u t) (findByIdAndDelete (notifyDeletion sv d u t) i)"
    by (rule addsOnly_same) (simp add: findByIdAndDelete_def)
  show ?thesis
    using addsOnly_trans[OF 1 2] by (simp add: deleteTaskHandler_def Let_def)
qed

text \<open>
  The update handler: a notification that it addresses to the principal is the assignment
  notification, sent when the body spells the principal's own id otherwise than
  \<^verbatim>\<open>toString()\<close> does.
\<close>

lemma updateTaskHandler_adds:
  "addsOnly (\<lambda>n. (ntype n = ''task-assigned'' \<or> ntype n = ''task-updated'') \<and>
                 sender n = user_id u \<and> relatedTask n = Some (task_id t0) \<and>
                 (recipient n = user_id u \<longrightarrow>
                    ntype n = ''task-assigned'' \<and>
                    (\<exists>a. b_assignedTo b = Val a \<and> castId a = user_id u \<and> \<not> canonical a)))
     d (fst (updateTaskHandler sv d u t0 b))"
proof -
  let ?Q = "\<lambda>n. (ntype n = ''task-assigned'' \<or> ntype n = ''task-updated'') \<and>
                 sender n = user_id u \<and> relatedTask n = Some (task_id t0) \<and>
                 (recipient n = user_id u \<longrightarrow>
                    ntype n = ''task-assigned'' \<and>
                    (\<exists>a. b_assignedTo b = Val a \<and> castId a = user_id u \<and> \<not> canonical a))"
  let ?t = "applyBody b t0"
  let ?d1 = "saveTask d ?t"
  let ?d2 = "(case b_assignedTo b of
               Val a \<Rightarrow>
                 if \<not> (case assignedTo t0 of None \<Rightarrow> False | Some old \<Rightarrow> sameString a old) \<and>
                    \<not> sameString a (user_id u)
                 then fst (createNotification sv ?d1 ''task-assigned'' (user_id u) (castId a)
                             (name u @ '' assigned you a task: '' @ title ?t)
                             (Some (task_id ?t)))
                 else ?d1
             | _ \<Rightarrow> ?d1)"
  let ?d3 = "(case assignedTo t0 of
               Some old \<Rightarrow>
                 if truthyField (b_status b) \<and> old \<noteq> user_id u
                 then fst (createNotification sv ?d2 ''task-updated'' (user_id u) old
                             (name u @ '' updated the status of task '' @ [CHR 0x22] @
                              title ?t @ [CHR 0x22] @ '' to '' @ fromField [] (b_status b))
                             (Some (task_id ?t)))
                 else ?d2
             | None \<Rightarrow> ?d2)"
  have tid: "task_id ?t = task_id t0" by (simp add: applyBody_def)
  have 1: "addsOnly ?Q d ?d1" by (rule addsOnly_same) (simp add: saveTask_def)
  have cn2: "b_assignedTo b = Val a \<Longrightarrow> \<not> sameString a (user_id u) \<Longrightarrow>
            addsOnly ?Q x (fst (createNotification sv x ''task-assigned'' (user_id u) (castId a) m
                                  (Some (task_id ?t))))"
    for a x m
    by (rule addsOnly_createNotification) (auto simp: tid sameString_def)
  have cn3: "r \<noteq> user_id u \<Longrightarrow>
            addsOnly ?Q x (fst (createNotification sv x ''task-updated'' (user_id u) r m
                                  (Some (task_id ?t))))"
    for r x m
    by (rule addsOnly_createNotification) (simp add: tid)
  have 2: "addsOnly ?Q ?d1 ?d2"
  proof (cases "b_assignedTo b")
    case (Val a)
    show ?thesis
    proof (cases "\<not> (case assignedTo t0 of None \<Rightarrow> False | Some old \<Rightarrow> sameString a old) \<and>
                  \<not> sameString a (user_id u)")
      case True
      then have ns: "\<not> sameString a (user_id u)" by simp
      have e: "?d2 = fst (createNotification sv ?d1 ''task-assigned'' (user_id u) (castId a)
                         (name u @ '' assigned you a task: '' @ title ?t) (Some (task_id ?t)))"
        using Val True by simp
      show ?thesis by (subst e) (rule cn2[OF Val ns])
    next
      case False
      then have e: "?d2 = ?d1" using Val by auto
      show ?thesis by (subst e) (rule addsOnly_refl)
    qed
  qed (simp_all add: addsOnly_refl)
  have 3: "addsOnly ?Q ?d2 ?d3"
    by (cases "assignedTo t0") (simp_all add: addsOnly_refl cn3)
  have 13: "addsOnly ?Q d ?d3" using 1 2 3 by (blast intro: addsOnly_trans)
  show ?thesis
  proof (cases "validateUpdate b \<and> b_createdBy b \<noteq> Null \<and> taskValid ?t")
    case True
    then have "fst (updateTaskHandler sv d u t0 b) = ?d3"
      by (simp add: updateTaskHandler_def Let_def wasCompleted_False)
    then show ?thesis using 13 by simp
  next
    case False
    then have "fst (updateTaskHandler sv d u t0 b) = d"
      by (auto simp: updateTaskHandler_def Let_def)
    then show ?thesis by (simp add: addsOnly_refl)
  qed
qed

lemma batchUpdateHandler_adds:
  "addsOnly (\<lambda>n. ntype n = ''task-assigned'' \<and> sender n = user_id u) d
     (fst (batchUpdateHandler sv d u taskIds updates))"
proof -
  let ?Q = "\<lambda>n. ntype n = ''task-assigned'' \<and> sender n = user_id u"
  have step: "addsOnly ?Q d (notifyAssigned sv (d\<lparr> tasks := ts, writes := ws \<rparr>) u a xs)"
    for ts ws a xs
  proof -
    have 1: "addsOnly ?Q d (d\<lparr> tasks := ts, writes := ws \<rparr>)" by (rule addsOnly_same) simp
    have 2: "addsOnly ?Q (d\<lparr> tasks := ts, writes := ws \<rparr>)
               (notifyAssigned sv (d\<lparr> tasks := ts, writes := ws \<rparr>) u a xs)"
      by (rule addsOnly_notifyAssigned) simp
    show ?thesis by (rule addsOnly_trans[OF 1 2])
  qed
  have same: "addsOnly ?Q d (d\<lparr> tasks := ts, writes := ws \<rparr>)" for ts ws
    by (rule addsOnly_same) simp
  show ?thesis
    by (simp add: batchUpdateHandler_def Let_def addsOnly_refl step same split: option.splits)
qed


subsection \<open>Batch update\<close>

lemma withUpdates_Nil: "withUpdates [] t = t"
  by (simp add: withUpdates_def)

lemma withUpdates_Cons: "withUpdates (x # xs) t = withUpdates xs (applyUpdate x t)"
  by (cases x) (simp_all add: withUpdates_def split: option.splits)

lemma applyUpdates_withUpdates: "applyUpdates us t = withUpdates us t"
  unfolding applyUpdates_def
  by (induction us arbitrary: t) (simp_all add: withUpdates_Nil withUpdates_Cons)

lemma batchUpdateHandler_rejects:
  "\<not> list_all (\<lambda>k. k \<in> set allowedUpdates) (map updateKey us) \<Longrightarrow>
   fst (batchUpdateHandler sv d u ids (Some us)) = d \<and>
   fst (snd (batchUpdateHandler sv d u ids (Some us))) = 400"
  by (auto simp: batchUpdateHandler_def split: option.splits)

lemma batchUpdateHandler_accepts:
  "list_all (\<lambda>k. k \<in> set allowedUpdates) (map updateKey us) \<Longrightarrow> ids \<noteq> [] \<Longrightarrow> us \<noteq> [] \<Longrightarrow>
   fst (snd (batchUpdateHandler sv d u (Some ids) (Some us))) = 200"
  by (simp add: batchUpdateHandler_def Let_def)

text \<open>
  Claim C8. For a batch update sent by an admin or a manager: when the \<^verbatim>\<open>updates\<close>
  object has a key outside \<^verbatim>\<open>status\<close>, \<^verbatim>\<open>priority\<close>, \<^verbatim>\<open>assignedTo\<close>, the answer
  is 400 and the store is left as it was; when all its keys are among the three, the
  stored tasks afterwards are the former ones, each task whose id is in \<^verbatim>\<open>taskIds\<close>
  now holding for status, priority and assignee the values that \<^verbatim>\<open>updates\<close> gives and
  its other fields as before (\<open>withUpdates\<close>), every other task untouched; and the answer
  is 200 when neither \<^verbatim>\<open>taskIds\<close> nor \<^verbatim>\<open>updates\<close> is empty.
\<close>

theorem batch_update_allow_list:
  assumes P: "requireSignIn d tok = Inr P"
    and R: "role P = ''admin'' \<or> role P = ''manager''"
  shows "((\<exists>x \<in> set us. updateKey x \<notin> set allowedUpdates) \<longrightarrow>
            statusCode (batchUpdate sv d tok taskIds (Some us)) = 400 \<and>
            fst (batchUpdate sv d tok taskIds (Some us)) = d) \<and>
         ((\<forall>x \<in> set us. updateKey x \<in> set allowedUpdates) \<longrightarrow>
            tasks (fst (batchUpdate sv d tok (Some ids) (Some us))) =
              map (\<lambda>t. if task_id t \<in> set ids then withUpdates us t else t) (tasks d) \<and>
            (ids \<noteq> [] \<and> us \<noteq> [] \<longrightarrow>
               statusCode (batchUpdate sv d tok (Some ids) (Some us)) = 200))"
proof -
  have route: "batchUpdate sv d tok x y = batchUpdateHandler sv d P x y" for x y
    using P R by (auto simp: batchUpdate_def hasRole_def)
  have rej: "statusCode (batchUpdate sv d tok taskIds (Some us)) = 400 \<and>
            fst (batchUpdate sv d tok taskIds (Some us)) = d"
    if "\<exists>x \<in> set us. updateKey x \<notin> set allowedUpdates"
  proof -
    from that have "\<not> list_all (\<lambda>k. k \<in> set allowedUpdates) (map updateKey us)"
      by (auto simp: list_all_iff)
    then show ?thesis
      using batchUpdateHandler_rejects[of us sv d P taskIds] by (simp add: route statusCode_def)
  qed
  have acc: "tasks (fst (batchUpdate sv d tok (Some ids) (Some us))) =
              map (\<lambda>t. if task_id t \<in> set ids then withUpdates us t else t) (tasks d) \<and>
            (ids \<noteq> [] \<and> us \<noteq> [] \<longrightarrow>
               statusCode (batchUpdate sv d tok (Some ids) (Some us)) = 200)"
    if "\<forall>x \<in> set us. updateKey x \<in> set allowedUpdates"
  proof -
    from that have ok: "list_all (\<lambda>k. k \<in> set allowedUpdates) (map updateKey us)"
      by (auto simp: list_all_iff)
    have "tasks (fst (batchUpdateHandler sv d P (Some ids) (Some us))) =
          map (\<lambda>t. if task_id t \<in> set ids then withUpdates us t else t) (tasks d)"
    proof (cases "ids = []")
      case True
      then show ?thesis by (simp add: batchUpdateHandler_tasks map_idI)
    next
      case False
      show ?thesis
      proof (cases "us = []")
        case True
        then show ?thesis by (simp add: batchUpdateHandler_tasks withUpdates_Nil map_idI)
      next
        case False
        with \<open>ids \<noteq> []\<close> ok show ?thesis
          by (simp add: batchUpdateHandler_tasks applyUpdates_withUpdates)
      qed
    qed
    then show ?thesis
      using batchUpdateHandler_accepts[OF ok, of ids sv d P]
      by (simp add: route statusCode_def)
  qed
  show ?thesis using rej acc by blast
qed

theorem batch_update_allow_list_witness:
  "requireSignIn exampleDb (Some 2) = Inr bob \<and> role bob = ''manager'' \<and>
   updateKey (SetOther ''title'') = ''title'' \<and>
   statusCode (batchUpdate saveSucceeds exampleDb (Some 2) (Some [10, 11])
                 (Some [SetStatus ''review'', SetOther ''title''])) = 400 \<and>
   fst (batchUpdate saveSucceeds exampleDb (Some 2) (Some [10, 11])
          (Some [SetStatus ''review'', SetOther ''title''])) = exampleDb \<and>
   tasks (fst (batchUpdate saveSucceeds exampleDb (Some 2) (Some [10, 11])
                 (Some [SetStatus ''review'', SetPriority ''urgent'',
                        SetAssignedTo (Some 3)]))) =
     [\<lparr> task_id = 10, title = ''Write report'', description = None, status = ''review'',
        priority = ''urgent'', dueDate = Some 1704844800000, createdBy = 3,
        assignedTo = Some 3, tags = [], isRecurring = True, recurringType = ''daily'',
        recurringEndDate = None \<rparr>,
      \<lparr> task_id = 11, title = ''Plan sprint'', description = Some ''Backlog grooming'',
        status = ''review'', priority = ''urgent'', dueDate = None, createdBy = 1,
        assignedTo = Some 3, tags = [], isRecurring = False, recurringType = ''none'',
        recurringEndDate = None \<rparr>] \<and>
   statusCode (batchUpdate saveSucceeds exampleDb (Some 2) (Some [10, 11])
                 (Some [SetStatus ''review'', SetPriority ''urgent'',
                        SetAssignedTo (Some 3)])) = 200 \<and>
   tasks (fst (batchUpdate saveSucceeds exampleDb (Some 2) (Some [11])
                 (Some [SetPriority ''low'']))) =
     [reportTask, sprintTask\<lparr> priority := ''low'' \<rparr>]"
proof -
  have h1: "requireSignIn exampleDb (Some 2) = Inr bob" by code_simp
  have h2: "role bob = ''manager''" by code_simp
  have h3: "\<exists>x \<in> set [SetStatus ''review'', SetOther ''title'']. updateKey x \<notin> set allowedUpdates"
    by (simp add: allowedUpdates_def)
  have h4: "\<forall>x \<in> set [SetStatus ''review'', SetPriority ''urgent'', SetAssignedTo (Some 3)].
              updateKey x \<in> set allowedUpdates"
    by (simp add: allowedUpdates_def)
  have h5: "map (\<lambda>t. if task_id t \<in> set [10, 11]
                     then withUpdates [SetStatus ''review'', SetPriority ''urgent'',
                                       SetAssignedTo (Some 3)] t
                     else t) (tasks exampleDb) =
     [\<lparr> task_id = 10, title = ''Write report'', description = None, status = ''review'',
        priority = ''urgent'', dueDate = Some 1704844800000, createdBy = 3,
        assignedTo = Some 3, tags = [], isRecurring = True, recurringType = ''daily'',
        recurringEndDate = None \<rparr>,
      \<lparr> task_id = 11, title = ''Plan sprint'', description = Some ''Backlog grooming'',
        status = ''review'', priority = ''urgent'', dueDate = None, createdBy = 1,
        assignedTo = Some 3, tags = [], isRecurring = False, recurringType = ''none'',
        recurringEndDate = None \<rparr>]"
    by code_simp
  have h6: "\<forall>x \<in> set [SetPriority ''low'']. updateKey x \<in> set allowedUpdates"
    by (simp add: allowedUpdates_def)
  have h7: "map (\<lambda>t. if task_id t \<in> set [11] then withUpdates [SetPriority ''low''] t else t)
              (tasks exampleDb) = [reportTask, sprintTask\<lparr> priority := ''low'' \<rparr>]"
    by code_simp
  have a: "statusCode (batchUpdate saveSucceeds exampleDb (Some 2) (Some [10, 11])
                 (Some [SetStatus ''review'', SetOther ''title''])) = 400 \<and>
           fst (batchUpdate saveSucceeds exampleDb (Some 2) (Some [10, 11])
                 (Some [SetStatus ''review'', SetOther ''title''])) = exampleDb"
    using batch_update_allow_list[OF h1 disjI2[OF h2],
        of "[SetStatus ''review'', SetOther ''title'']" saveSucceeds "Some [10, 11]" "[]"] h3
    by blast
  have b: "tasks (fst (batchUpdate saveSucceeds exampleDb (Some 2) (Some [10, 11])
                 (Some [SetStatus ''review'', SetPriority ''urgent'',
                        SetAssignedTo (Some 3)]))) =
             map (\<lambda>t. if task_id t \<in> set [10, 11]
                     then withUpdates [SetStatus ''review'', SetPriority ''urgent'',
                                       SetAssignedTo (Some 3)] t
                     else t) (tasks exampleDb) \<and>
           statusCode (batchUpdate saveSucceeds exampleDb (Some 2) (Some [10, 11])
                 (Some [SetStatus ''review'', SetPriority ''urgent'',
                        SetAssignedTo (Some 3)])) = 200"
    using batch_update_allow_list[OF h1 disjI2[OF h2],
        of "[SetStatus ''review'', SetPriority ''urgent'', SetAssignedTo (Some 3)]"
        saveSucceeds "None" "[10, 11]"] h4
    by simp
  have c: "tasks (fst (batchUpdate saveSucceeds exampleDb (Some 2) (Some [11])
                 (Some [SetPriority ''low'']))) =
             map (\<lambda>t. if task_id t \<in> set [11] then withUpdates [SetPriority ''low''] t else t)
               (tasks exampleDb)"
    using batch_update_allow_list[OF h1 disjI2[OF h2],
        of "[SetPriority ''low'']" saveSucceeds "None" "[11]"] h6
    by simp
  show ?thesis using h1 h2 a b c h5 h7 by simp
qed


subsection \<open>Notifications of each route\<close>

lemma createTask_adds:
  "addsOnly (\<lambda>n. ntype n = ''task-assigned'') d (fst (createTask sv d tok b))"
proof (cases "requireSignIn d tok")
  case (Inl r)
  then show ?thesis by (simp add: createTask_def addsOnly_refl)
next
  case (Inr u)
  have "addsOnly (\<lambda>n. ntype n = ''task-assigned'') d (fst (createTaskHandler sv d u b))"
    using createTaskHandler_adds[of u d sv b] unfolding addsOnly_iff by blast
  with Inr show ?thesis by (simp add: createTask_def)
qed

lemma updateTask_adds:
  "addsOnly (\<lambda>n. ntype n = ''task-assigned'' \<or> ntype n = ''task-updated'') d
     (fst (updateTask sv d tok i b))"
proof (cases "requireSignIn d tok")
  case (Inl r)
  then show ?thesis by (simp add: updateTask_def addsOnly_refl)
next
  case (Inr u)
  show ?thesis
  proof (cases "isTaskCreatorOrAdmin d u i")
    case (Inl r)
    with Inr show ?thesis by (simp add: updateTask_def addsOnly_refl)
  next
    case (Inr t)
    have "addsOnly (\<lambda>n. ntype n = ''task-assigned'' \<or> ntype n = ''task-updated'') d
            (fst (updateTaskHandler sv d u t b))"
      using updateTaskHandler_adds[where u = u and ?t0.0 = t and d = d and sv = sv and b = b]
      unfolding addsOnly_iff by blast
    with Inr \<open>requireSignIn d tok = Inr u\<close> show ?thesis by (simp add: updateTask_def)
  qed
qed

lemma deleteTask_adds:
  "addsOnly (\<lambda>n. ntype n = ''task-deleted'' \<and> relatedTask n = None) d
     (fst (deleteTask sv d tok i))"
proof (cases "requireSignIn d tok")
  case (Inl r)
  then show ?thesis by (simp add: deleteTask_def addsOnly_refl)
next
  case (Inr u)
  show ?thesis
  proof (cases "isTaskCreatorOrAdmin d u i")
    case (Inl r)
    with Inr show ?thesis by (simp add: deleteTask_def addsOnly_refl)
  next
    case (Inr t)
    have "addsOnly (\<lambda>n. ntype n = ''task-deleted'' \<and> relatedTask n = None) d
            (fst (deleteTaskHandler sv d u t i))"
      using deleteTaskHandler_adds[of u d sv t i] unfolding addsOnly_iff by blast
    with Inr \<open>requireSignIn d tok = Inr u\<close> show ?thesis by (simp add: deleteTask_def)
  qed
qed

lemma batchUpdate_adds:
  "addsOnly (\<lambda>n. ntype n = ''task-assigned'') d (fst (batchUpdate sv d tok ids us))"
proof (cases "requireSignIn d tok")
  case (Inl r)
  then show ?thesis by (simp add: batchUpdate_def addsOnly_refl)
next
  case (Inr u)
  have "addsOnly (\<lambda>n. ntype n = ''task-assigned'') d (fst (batchUpdateHandler sv d u ids us))"
    using batchUpdateHandler_adds[of u d sv ids us] unfolding addsOnly_iff by blast
  with Inr show ?thesis by (simp add: batchUpdate_def addsOnly_refl split: sum.splits)
qed


lemma notifyDeletion_writes:
  "writes (notifyDeletion sv d u t) =
     writes d @ map SavedNotification (newNotifications d (notifyDeletion sv d u t))"
  by (simp add: notifyDeletion_def createNotification_def newNotifications_def Let_def
      split: option.splits)

lemma deleteTaskHandler_writes:
  "newWrites d (fst (deleteTaskHandler sv d u t i)) =
     map SavedNotification (newNotifications d (fst (deleteTaskHandler sv d u t i))) @
     [DeletedTask i]"
  by (simp add: deleteTaskHandler_def Let_def findByIdAndDelete_def newWrites_def
      notifyDeletion_writes newNotifications_def)

lemma deleteTask_cases:
  "(fst (deleteTask sv d tok i) = d \<and> statusCode (deleteTask sv d tok i) \<noteq> 200) \<or>
   (\<exists>u t. deleteTask sv d tok i = deleteTaskHandler sv d u t i)"
  by (auto simp: deleteTask_def statusCode_def requireSignIn_def isTaskCreatorOrAdmin_def
      split: sum.splits option.splits if_splits)

text \<open>
  Claim C10. Every notification that a delete request adds has type
  \<^verbatim>\<open>task-deleted\<close> and no related task, and no other route adds a notification of that
  type. A delete request that is answered 200 makes the store carry out exactly these
  writes, in this order: the notifications it adds, then the deletion of the task; so a
  deletion is notified before the record is removed. A delete request that is answered
  otherwise leaves the store as it was.
\<close>

theorem deleted_notification_unlinked:
  "(\<forall>n \<in> set (newNotifications d (fst (deleteTask sv d tok i))).
      ntype n = ''task-deleted'' \<and> relatedTask n = None) \<and>
   (\<forall>n \<in> set (newNotifications d (fst (createTask sv d tok b))). ntype n \<noteq> ''task-deleted'') \<and>
   (\<forall>n \<in> set (newNotifications d (fst (updateTask sv d tok i b))). ntype n \<noteq> ''task-deleted'') \<and>
   (\<forall>n \<in> set (newNotifications d (fst (batchUpdate sv d tok ids us))).
      ntype n \<noteq> ''task-deleted'') \<and>
   (statusCode (deleteTask sv d tok i) = 200 \<longrightarrow>
      newWrites d (fst (deleteTask sv d tok i)) =
        map SavedNotification (newNotifications d (fst (deleteTask sv d tok i))) @
        [DeletedTask i]) \<and>
   (statusCode (deleteTask sv d tok i) \<noteq> 200 \<longrightarrow> fst (deleteTask sv d tok i) = d)"
proof -
  have 1: "\<forall>n \<in> set (newNotifications d (fst (deleteTask sv d tok i))).
      ntype n = ''task-deleted'' \<and> relatedTask n = None"
    using addsOnly_new[OF deleteTask_adds[of d sv tok i]] by blast
  have 2: "\<forall>n \<in> set (newNotifications d (fst (createTask sv d tok b))). ntype n \<noteq> ''task-deleted''"
    using addsOnly_new[OF createTask_adds[of d sv tok b]] by auto
  have 3: "\<forall>n \<in> set (newNotifications d (fst (updateTask sv d tok i b))).
             ntype n \<noteq> ''task-deleted''"
    using addsOnly_new[OF updateTask_adds[of d sv tok i b]] by fastforce
  have 4: "\<forall>n \<in> set (newNotifications d (fst (batchUpdate sv d tok ids us))).
      ntype n \<noteq> ''task-deleted''"
    using addsOnly_new[OF batchUpdate_adds[of d sv tok ids us]] by auto
  have 5: "statusCode (deleteTask sv d tok i) = 200 \<longrightarrow>
      newWrites d (fst (deleteTask sv d tok i)) =
        map SavedNotification (newNotifications d (fst (deleteTask sv d tok i))) @
        [DeletedTask i]"
    using deleteTask_cases[of sv d tok i] deleteTaskHandler_writes[of d sv _ _ i] by auto
  have 6: "statusCode (deleteTask sv d tok i) \<noteq> 200 \<longrightarrow> fst (deleteTask sv d tok i) = d"
    using deleteTask_cases[of sv d tok i]
    by (auto simp: statusCode_def deleteTaskHandler_response)
  show ?thesis using 1 2 3 4 5 6 by blast
qed

theorem deleted_notification_unlinked_witness:
  "statusCode (deleteTask saveSucceeds exampleDb (Some 3) 10) = 200 \<and>
   newNotifications exampleDb (fst (deleteTask saveSucceeds exampleDb (Some 3) 10)) =
     [\<lparr> ntype = ''task-deleted'', sender = 3, recipient = 4,
        message = ''Carol deleted a task that was assigned to you: Write report'',
        relatedTask = None, isRead = False \<rparr>] \<and>
   newWrites exampleDb (fst (deleteTask saveSucceeds exampleDb (Some 3) 10)) =
     [SavedNotification
        \<lparr> ntype = ''task-deleted'', sender = 3, recipient = 4,
          message = ''Carol deleted a task that was assigned to you: Write report'',
          relatedTask = None, isRead = False \<rparr>,
      DeletedTask 10] \<and>
   findById (fst (deleteTask saveSucceeds exampleDb (Some 3) 10)) 10 = None"
proof -
  have h1: "statusCode (deleteTask saveSucceeds exampleDb (Some 3) 10) = 200"
    by code_simp
  have h2: "newNotifications exampleDb (fst (deleteTask saveSucceeds exampleDb (Some 3) 10)) =
     [\<lparr> ntype = ''task-deleted'', sender = 3, recipient = 4,
        message = ''Carol deleted a task that was assigned to you: Write report'',
        relatedTask = None, isRead = False \<rparr>]"
    by code_simp
  have h3: "findById (fst (deleteTask saveSucceeds exampleDb (Some 3) 10)) 10 = None"
    by code_simp
  have "newWrites exampleDb (fst (deleteTask saveSucceeds exampleDb (Some 3) 10)) =
        map SavedNotification
          (newNotifications exampleDb (fst (deleteTask saveSucceeds exampleDb (Some 3) 10))) @
        [DeletedTask 10]"
    using deleted_notification_unlinked[where d = exampleDb and sv = saveSucceeds
          and tok = "Some 3" and i = 10] h1
    by blast
  then show ?thesis using h1 h2 h3 by simp
qed


subsection \<open>Where the routes depart from the specification\<close>

lemma length_replaceById: "length (replaceById t xs) = length xs"
  by (induction xs) simp_all

lemma update_adds_no_task:
  "length (tasks (fst (updateTask sv d tok i b))) = length (tasks d)"
  by (simp add: updateTask_def updateTaskHandler_tasks length_replaceById split: sum.splits)

lemma non_admin_search_overwritten:
  "role u \<noteq> ''admin'' \<Longrightarrow> buildQuery now u (f\<lparr> f_search := s \<rparr>) = buildQuery now u f"
  by (simp add: buildQuery_def Let_def emptyQuery_def split: option.splits idFilter.splits)

lemma no_self_notification_elsewhere:
  "(\<forall>n \<in> set (newNotifications d (fst (createTaskHandler sv d u b))). recipient n \<noteq> user_id u) \<and>
   (\<forall>n \<in> set (newNotifications d (fst (deleteTaskHandler sv d u t i))). recipient n \<noteq> user_id u) \<and>
   ((\<forall>a. b_assignedTo b = Val a \<longrightarrow> canonical a) \<longrightarrow>
      (\<forall>n \<in> set (newNotifications d (fst (updateTaskHandler sv d u t b))).
         recipient n \<noteq> user_id u))"
  using addsOnly_new[OF createTaskHandler_adds[of u d sv b]]
    addsOnly_new[OF updateTaskHandler_adds[where u = u and ?t0.0 = t and d = d and sv = sv
        and b = b]]
    addsOnly_new[OF deleteTaskHandler_adds[of u d sv t i]]
  by blast

text \<open>
  Carol assigns her task to herself, her id spelled in upper case: the string test against
  \<^verbatim>\<open>req.user._id.toString()\<close> lets it pass and she is notified. Spelled as
  \<^verbatim>\<open>toString()\<close> spells it, the same request adds no notification.
\<close>

lemma update_other_spelling_notifies_actor:
  "requireSignIn exampleDb (Some 3) = Inr carol \<and> user_id carol = 3 \<and>
   statusCode (updateTask saveSucceeds exampleDb (Some 3) 10
                 (emptyBody\<lparr> b_assignedTo := Val \<lparr> castId = 3, canonical = False \<rparr> \<rparr>)) = 200 \<and>
   map recipient
     (newNotifications exampleDb
        (fst (updateTask saveSucceeds exampleDb (Some 3) 10
                (emptyBody\<lparr> b_assignedTo := Val \<lparr> castId = 3, canonical = False \<rparr> \<rparr>)))) = [3] \<and>
   newNotifications exampleDb
     (fst (updateTask saveSucceeds exampleDb (Some 3) 10
             (emptyBody\<lparr> b_assignedTo := Val \<lparr> castId = 3, canonical = True \<rparr> \<rparr>))) = []"
  by code_simp

lemma createdBy_applyBody:
  "createdBy (applyBody b t) = (case b_createdBy b of Val c \<Rightarrow> c | _ \<Rightarrow> createdBy t)"
  by (cases "b_createdBy b") (simp_all add: applyBody_def)

text \<open>
  The condition under which the update handler sends the \<^verbatim>\<open>task-updated\<close>
  notification, for a valid update and a store that accepts the write: the body holds a
  status, and the task had an assignee other than the principal.
\<close>

lemma task_updated_notification_iff:
  assumes v: "validateUpdate b" and c: "b_createdBy b \<noteq> Null"
    and t: "taskValid (applyBody b t0)" and s: "\<forall>n. sv n"
  shows "(\<exists>n \<in> set (newNotifications d (fst (updateTaskHandler sv d u t0 b))).
            ntype n = ''task-updated'') \<longleftrightarrow>
         (b_status b \<noteq> Undefined \<and> (\<exists>old. assignedTo t0 = Some old \<and> old \<noteq> user_id u))"
proof -
  have st: "b_status b = Undefined \<or> (\<exists>x. b_status b = Val x \<and> x \<noteq> [])"
    using v by (cases "b_status b") (auto simp: validateUpdate_def validateCommon_def statusEnum_def)
  show ?thesis
    using v c t s st
    by (auto simp: updateTaskHandler_def Let_def wasCompleted_False createNotification_def
        newNotifications_def saveTask_def notificationValid_def notificationTypeEnum_def
        split: jsfield.splits option.splits)
qed

text \<open>
  Claim C3, as the code runs. Carol completes her daily recurring task, which was in state
  \<^verbatim>\<open>todo\<close>, is due 2024-01-10 and has no end date. The update succeeds, and the store
  afterwards holds the same two tasks, the first now completed: no next occurrence is
  stored. The handler reads \<^verbatim>\<open>task.status\<close> after it has assigned the body to the
  task, so its test \<^verbatim>\<open>task.status !== 'completed'\<close> fails whenever
  \<^verbatim>\<open>req.body.status === 'completed'\<close> holds (lemmas \<open>wasCompleted_False\<close> and
  \<open>update_adds_no_task\<close>).
\<close>

theorem recurring_completion_spawns_nothing:
  "status reportTask = ''todo'' \<and> isRecurring reportTask \<and>
   recurringType reportTask = ''daily'' \<and> recurringEndDate reportTask = None \<and>
   statusCode (updateTask saveSucceeds exampleDb (Some 3) 10
                 (emptyBody\<lparr> b_status := Val ''completed'' \<rparr>)) = 200 \<and>
   tasks (fst (updateTask saveSucceeds exampleDb (Some 3) 10
                 (emptyBody\<lparr> b_status := Val ''completed'' \<rparr>))) =
     [reportTask\<lparr> status := ''completed'' \<rparr>, sprintTask]"
  by code_simp

text \<open>
  Claim C4, as the code runs. Carol, creator of task 10, sends an update whose body holds
  \<^verbatim>\<open>createdBy\<close> with Dave's id. The update succeeds and the stored task then names
  Dave as its creator.
\<close>

theorem update_overwrites_createdBy:
  "requireSignIn exampleDb (Some 3) = Inr carol \<and>
   map_option createdBy (findById exampleDb 10) = Some 3 \<and>
   statusCode (updateTask saveSucceeds exampleDb (Some 3) 10
                 (emptyBody\<lparr> b_createdBy := Val 4 \<rparr>)) = 200 \<and>
   map_option createdBy
     (findById (fst (updateTask saveSucceeds exampleDb (Some 3) 10
                       (emptyBody\<lparr> b_createdBy := Val 4 \<rparr>))) 10) = Some 4"
  by code_simp

text \<open>
  Claim C5, as the code runs. Bob, a manager, batch-assigns task 10 to himself. The one
  notification that the request adds has Bob, the acting principal, as its recipient.
  Create and delete never do this, nor does update when the body spells the new assignee
  as \<^verbatim>\<open>toString()\<close> does (lemma \<open>no_self_notification_elsewhere\<close>).
\<close>

theorem batch_update_notifies_actor:
  "requireSignIn exampleDb (Some 2) = Inr bob \<and> user_id bob = 2 \<and>
   statusCode (batchUpdate saveSucceeds exampleDb (Some 2) (Some [10])
                 (Some [SetAssignedTo (Some 2)])) = 200 \<and>
   map recipient
     (newNotifications exampleDb
        (fst (batchUpdate saveSucceeds exampleDb (Some 2) (Some [10])
                (Some [SetAssignedTo (Some 2)])))) = [2]"
  by code_simp

text \<open>
  Claim C6, as the code runs. Dave, who is no admin, lists tasks with \<^verbatim>\<open>search=sprint\<close>.
  The answer holds the task ``Write report'', which has no description and whose title does
  not contain the search string: the visibility clause has replaced the search clause under
  the same key \<^verbatim>\<open>$or\<close> (lemma \<open>non_admin_search_overwritten\<close>). For Alice, an
  admin, the same search finds ``Plan sprint'' only.
\<close>

theorem search_dropped_for_non_admin:
  "requireSignIn exampleDb (Some 4) = Inr dave \<and> role dave = ''user'' \<and>
   \<not> containsIgnoreCase ''sprint'' (title reportTask) \<and> description reportTask = None \<and>
   responseTasks (listTasks containsIgnoreCase byId 0 exampleDb (Some 4)
                    (noFilters\<lparr> f_search := Some ''sprint'' \<rparr>)) = [reportTask] \<and>
   responseTasks (listTasks containsIgnoreCase byId 0 exampleDb (Some 1)
                    (noFilters\<lparr> f_search := Some ''sprint'' \<rparr>)) = [sprintTask]"
  by code_simp

text \<open>
  Claim C7, as the code runs. Carol updates task 10, whose status is \<^verbatim>\<open>todo\<close>, with a
  body that holds \<^verbatim>\<open>status: 'todo'\<close>. The status is the same afterwards, and yet a
  \<^verbatim>\<open>task-updated\<close> notification to the assignee Dave is added.
\<close>

theorem unchanged_status_notifies:
  "requireSignIn exampleDb (Some 3) = Inr carol \<and>
   map_option status (findById exampleDb 10) = Some ''todo'' \<and>
   map_option status
     (findById (fst (updateTask saveSucceeds exampleDb (Some 3) 10
                       (emptyBody\<lparr> b_status := Val ''todo'' \<rparr>))) 10) = Some ''todo'' \<and>
   map (\<lambda>n. (ntype n, recipient n))
     (newNotifications exampleDb
        (fst (updateTask saveSucceeds exampleDb (Some 3) 10
                (emptyBody\<lparr> b_status := Val ''todo'' \<rparr>)))) = [(''task-updated'', 4)]"
  by code_simp

end
